theory Spec2Isabelle
  imports Complex_Main
begin

section \<open>Values of Go's float64\<close>

text \<open>
  Prices, indicator values and amounts are \<^verbatim>\<open>float64\<close> in the source: IEEE 754
  binary64. A value is a NaN, an infinity, the negative zero, or a finite number, carried
  as the real number it stands for (\<open>Fin 0\<close> is the positive zero). NaN payloads are not
  told apart.
\<close>

datatype f64 = NaN | NInf | NZero | Fin real | PInf

fun val :: "f64 \<Rightarrow> real" where
  "val (Fin a) = a"
| "val _ = 0"

fun neg :: "f64 \<Rightarrow> bool" where
  "neg NInf = True"
| "neg NZero = True"
| "neg (Fin a) = (a < 0)"
| "neg _ = False"

definition is_inf :: "f64 \<Rightarrow> bool" where
  "is_inf x = (x = PInf \<or> x = NInf)"

definition is_zero :: "f64 \<Rightarrow> bool" where
  "is_zero x = (x = Fin 0 \<or> x = NZero)"

definition inf_of :: "bool \<Rightarrow> f64" where
  "inf_of negative = (if negative then NInf else PInf)"

definition zero_of :: "bool \<Rightarrow> f64" where
  "zero_of negative = (if negative then NZero else Fin 0)"

text \<open>
  The comparisons \<^verbatim>\<open><\<close>, \<^verbatim>\<open>>\<close>, \<^verbatim>\<open>==\<close>, \<^verbatim>\<open><=\<close> and \<^verbatim>\<open>>=\<close>: every
  comparison with a NaN is false, and the two zeros are equal.
\<close>

definition flt :: "f64 \<Rightarrow> f64 \<Rightarrow> bool" where
  "flt x y =
     (x \<noteq> NaN \<and> y \<noteq> NaN \<and> x \<noteq> PInf \<and> y \<noteq> NInf \<and> (x = NInf \<or> y = PInf \<or> val x < val y))"

definition fgt :: "f64 \<Rightarrow> f64 \<Rightarrow> bool" where
  "fgt a b = flt b a"

definition feq :: "f64 \<Rightarrow> f64 \<Rightarrow> bool" where
  "feq x y =
     (x \<noteq> NaN \<and> y \<noteq> NaN \<and> (if is_inf x \<or> is_inf y then x = y else val x = val y))"

definition fle :: "f64 \<Rightarrow> f64 \<Rightarrow> bool" where
  "fle a b = (flt a b \<or> feq a b)"

definition fge :: "f64 \<Rightarrow> f64 \<Rightarrow> bool" where
  "fge a b = fle b a"

text \<open>
  Rounding to nearest, ties to even. A magnitude \<open>m\<close> is rounded on the grid of its
  binade: \<open>exponent m\<close> is the exponent of \<open>m\<close>, not below -1022 (the subnormal
  numbers share the grid of the smallest binade) and found by going up from there; the
  spacing of the grid is \<open>2 powi (exponent m - 52)\<close>. A rounded magnitude of
  \<open>2 powi 1024\<close> or more is an overflow.
\<close>

definition nearest_even :: "real \<Rightarrow> int" where
  "nearest_even x =
     (let f = \<lfloor>x\<rfloor>; d = x - of_int f
      in if d < 1 / 2 then f else if 1 / 2 < d then f + 1 else if even f then f else f + 1)"

fun climb :: "nat \<Rightarrow> int \<Rightarrow> real \<Rightarrow> int" where
  "climb 0 e m = e"
| "climb (Suc n) e m = (if 2 powi (e + 1) \<le> m then climb n (e + 1) m else e)"

definition exponent :: "real \<Rightarrow> int" where
  "exponent m = climb 2046 (- 1022) m"

definition round_mag :: "real \<Rightarrow> real" where
  "round_mag m = (let q = 2 powi (exponent m - 52) in of_int (nearest_even (m / q)) * q)"

text \<open>
  The float64 with the given sign whose magnitude is the exact magnitude \<open>m\<close> rounded:
  an infinity on overflow, and a zero with the sign kept when \<open>m\<close> rounds to 0.
\<close>

definition mk :: "bool \<Rightarrow> real \<Rightarrow> f64" where
  "mk negative m =
     (let r = round_mag m
      in if 2 powi 1024 \<le> r then inf_of negative
         else if r = 0 then zero_of negative
         else Fin (if negative then - r else r))"

text \<open>The value of a decimal literal of the source, such as \<^verbatim>\<open>1.01\<close>.\<close>

definition f64_of_real :: "real \<Rightarrow> f64" where
  "f64_of_real x = mk (x < 0) \<bar>x\<bar>"

text \<open>
  Subtraction, multiplication and division. An exact difference of 0 is the positive
  zero, except for \<open>-0 - +0\<close>.
\<close>

definition fsub :: "f64 \<Rightarrow> f64 \<Rightarrow> f64" where
  "fsub x y =
     (if x = NaN \<or> y = NaN then NaN
      else if is_inf x then (if is_inf y \<and> neg x = neg y then NaN else x)
      else if is_inf y then inf_of (\<not> neg y)
      else if val x - val y = 0 then (if x = NZero \<and> y = Fin 0 then NZero else Fin 0)
      else mk (val x - val y < 0) \<bar>val x - val y\<bar>)"

definition fmul :: "f64 \<Rightarrow> f64 \<Rightarrow> f64" where
  "fmul x y =
     (if x = NaN \<or> y = NaN then NaN
      else if is_inf x \<or> is_inf y then
        (if is_zero x \<or> is_zero y then NaN else inf_of (neg x \<noteq> neg y))
      else mk (neg x \<noteq> neg y) (\<bar>val x\<bar> * \<bar>val y\<bar>))"

definition fdiv :: "f64 \<Rightarrow> f64 \<Rightarrow> f64" where
  "fdiv x y =
     (if x = NaN \<or> y = NaN then NaN
      else if is_inf x then (if is_inf y then NaN else inf_of (neg x \<noteq> neg y))
      else if is_inf y then zero_of (neg x \<noteq> neg y)
      else if is_zero y then (if is_zero x then NaN else inf_of (neg x \<noteq> neg y))
      else mk (neg x \<noteq> neg y) (\<bar>val x\<bar> / \<bar>val y\<bar>))"

section \<open>Domain entities\<close>

text \<open>
  \<^verbatim>\<open>domain.Asset\<close>. The field \<^verbatim>\<open>LastUpdatedAt\<close> (a \<^verbatim>\<open>time.Time\<close>) is never
  written or read by the code modelled here and is left out.
\<close>

record Asset =
  Symbol :: string
  CurrentPrice :: f64
  Price1H :: f64
  PurchasePrice :: f64
  Volume24H :: f64
  MACD :: f64
  RSI :: f64

definition CalculateROI :: "Asset \<Rightarrow> f64" where
  "CalculateROI a =
     (if feq (Price1H a) (Fin 0) then Fin 0
      else fmul (fdiv (fsub (CurrentPrice a) (Price1H a)) (Price1H a)) (Fin 100))"

section \<open>The trend decision of AnalyzeTrends\<close>

text \<open>
  The four conditions computed in the body of the analysis task, under the names the
  source gives them.
\<close>

definition isGoldenCross :: "f64 \<Rightarrow> f64 \<Rightarrow> f64 \<Rightarrow> f64 \<Rightarrow> bool" where
  "isGoldenCross prevMacd prevMacdSignal lastMacd lastMacdSignal =
     (flt prevMacd prevMacdSignal \<and> fgt lastMacd lastMacdSignal)"

definition isRsiNotOverbought :: "f64 \<Rightarrow> bool" where
  "isRsiNotOverbought lastRsi = flt lastRsi (Fin 70)"

definition isDeadCross :: "f64 \<Rightarrow> f64 \<Rightarrow> f64 \<Rightarrow> f64 \<Rightarrow> bool" where
  "isDeadCross prevMacd prevMacdSignal lastMacd lastMacdSignal =
     (fgt prevMacd prevMacdSignal \<and> flt lastMacd lastMacdSignal)"

definition isRsiNotOversold :: "f64 \<Rightarrow> bool" where
  "isRsiNotOversold lastRsi = fgt lastRsi (Fin 30)"

section \<open>Errors, slices and library functions\<close>

text \<open>
  A Go \<^verbatim>\<open>error\<close> is a message, possibly wrapping its cause
  (\<^verbatim>\<open>fmt.Errorf("...: %w", err)\<close>).
\<close>

datatype error = Err string | Wrap string error

text \<open>
  Reading a slice at an index: \<open>None\<close> is the run-time panic "index out of range".
  The index is a Go \<^verbatim>\<open>int\<close>, so \<^verbatim>\<open>len(xs)-2\<close> may be negative.
\<close>

definition index :: "'a list \<Rightarrow> int \<Rightarrow> 'a option" where
  "index xs i = (if 0 \<le> i \<and> i < int (length xs) then Some (xs ! nat i) else None)"

text \<open>
  Functions of libraries outside the repository are parameters of the model:
  \<^verbatim>\<open>talib.Macd\<close>, \<^verbatim>\<open>talib.Rsi\<close>, \<^verbatim>\<open>strconv.ParseFloat\<close> and the
  \<^verbatim>\<open>fmt.Sprintf\<close> call that renders one candidate's line.
\<close>

record platform =
  talib_Macd :: "f64 list \<Rightarrow> int \<Rightarrow> int \<Rightarrow> int \<Rightarrow> f64 list \<times> f64 list \<times> f64 list"
  talib_Rsi :: "f64 list \<Rightarrow> int \<Rightarrow> f64 list"
  ParseFloat :: "string \<Rightarrow> error + f64"
  Sprintf_info :: "string \<Rightarrow> f64 \<Rightarrow> f64 \<Rightarrow> f64 \<Rightarrow> string"

text \<open>
  The two gateway interfaces of package usecase, with the methods AnalyzeTrends calls.
  A value of \<open>KuCoinGateway\<close> is the gateway as it answers at one moment. The exchange
  changes with time, and a scan makes one call of \<^verbatim>\<open>GetKlines\<close> for every element of
  \<^verbatim>\<open>pairs\<close>, also when a symbol is listed twice; AnalyzeTrends below therefore takes
  the gateway as a sequence of such values, one for each of its calls.
\<close>

record KuCoinGateway =
  GetTop20USDTpairsByVolume :: "error + string list"
  GetKlines :: "string \<Rightarrow> int \<Rightarrow> int \<Rightarrow> error + string list list"

record OpenAIGateway =
  AskAboutAssets :: "string list \<Rightarrow> string \<Rightarrow> error + string"

section \<open>AnalyzeTrends\<close>

datatype direction = LONG | SHORT

text \<open>What AnalyzeTrends writes: one constructor per log or print statement.\<close>

datatype entry =
    Log_FetchingTop20
  | Log_Fatal_TopPairs error
  | Log_FoundPairs "string list"
  | Log_Analyzing string
  | Log_KlinesError string error
  | Log_ParseError string error
  | Log_NotEnoughData string
  | Log_Candidate direction string f64
  | Log_Found direction nat
  | Log_Info string
  | Log_AskingOpenAI direction
  | Log_AnalysisError direction error
  | Print_Analysis direction string
  | Log_NoCandidates direction

text \<open>
  The loop that fills \<^verbatim>\<open>closePrices\<close>: it reads \<^verbatim>\<open>k[2]\<close> of every row in
  order and returns from the task at the first value that does not parse. A row with
  fewer than three fields makes \<^verbatim>\<open>k[2]\<close> panic.
\<close>

datatype 'a attempt = Ok 'a | Failed error | Panicked

fun closePricesOf :: "(string \<Rightarrow> error + f64) \<Rightarrow> string list list \<Rightarrow> f64 list attempt" where
  "closePricesOf parse [] = Ok []"
| "closePricesOf parse (k # klines) =
     (case index k 2 of
        None \<Rightarrow> Panicked
      | Some field \<Rightarrow>
          (case parse field of
             Inl err \<Rightarrow> Failed err
           | Inr price \<Rightarrow>
               (case closePricesOf parse klines of
                  Ok prices \<Rightarrow> Ok (price # prices)
                | Failed err \<Rightarrow> Failed err
                | Panicked \<Rightarrow> Panicked)))"

text \<open>
  The in-place reversal
  \<^verbatim>\<open>for i, j := 0, len(closePrices)-1; i < j; i, j = i+1, j-1 { swap }\<close>.
\<close>

function reverse_loop :: "nat \<Rightarrow> nat \<Rightarrow> 'a list \<Rightarrow> 'a list" where
  "reverse_loop i j xs =
     (if i < j then reverse_loop (i + 1) (j - 1) (xs[i := xs ! j, j := xs ! i]) else xs)"
  by pat_completeness auto
termination
  by (relation "measure (\<lambda>(i, j, xs). j - i)") auto

definition reverse :: "'a list \<Rightarrow> 'a list" where
  "reverse xs = reverse_loop 0 (length xs - 1) xs"

definition createAsset :: "string \<Rightarrow> f64 list \<Rightarrow> f64 \<Rightarrow> f64 \<Rightarrow> Asset option" where
  "createAsset symbol closePrices macd rsi =
     (case (index closePrices (int (length closePrices) - 1),
            index closePrices (int (length closePrices) - 2)) of
        (Some current, Some price1h) \<Rightarrow>
          Some \<lparr>Symbol = symbol, CurrentPrice = current, Price1H = price1h,
                PurchasePrice = Fin 0, Volume24H = Fin 0, MACD = macd, RSI = rsi\<rparr>
      | _ \<Rightarrow> None)"

text \<open>
  One of the two blocks that follow the trend decision: when its condition holds, the
  block creates the asset, appends it to its candidate slice under the mutex and logs.
  The result is the log and the assets appended; \<open>None\<close> is a panic.
\<close>

definition candidate ::
  "bool \<Rightarrow> direction \<Rightarrow> string \<Rightarrow> f64 list \<Rightarrow> f64 \<Rightarrow> f64 \<Rightarrow> (entry list \<times> Asset list) option" where
  "candidate fires d p closePrices lastMacd lastRsi =
     (if fires then
        (case createAsset p closePrices lastMacd lastRsi of
           None \<Rightarrow> None
         | Some asset \<Rightarrow> Some ([Log_Candidate d p lastRsi], [asset]))
      else Some ([], []))"

text \<open>
  How one analysis task (the goroutine started for a pair) ends: at one of its three
  early returns, by a panic, or at the end of its body with the assets it appended to
  \<^verbatim>\<open>longCandidates\<close> and \<^verbatim>\<open>shortCandidates\<close>.
\<close>

datatype task_end =
    KlinesError
  | ParseError
  | NotEnoughData
  | Panic
  | Done "Asset list" "Asset list"

definition judge ::
  "string \<Rightarrow> f64 list \<Rightarrow> f64 \<Rightarrow> f64 \<Rightarrow> f64 \<Rightarrow> f64 \<Rightarrow> f64 \<Rightarrow> entry list \<times> task_end" where
  "judge p closePrices prevMacd prevMacdSignal lastMacd lastMacdSignal lastRsi =
     (case candidate
             (isGoldenCross prevMacd prevMacdSignal lastMacd lastMacdSignal
                \<and> isRsiNotOverbought lastRsi)
             LONG p closePrices lastMacd lastRsi of
        None \<Rightarrow> ([], Panic)
      | Some (log1, longs) \<Rightarrow>
          (case candidate
                  (isDeadCross prevMacd prevMacdSignal lastMacd lastMacdSignal
                     \<and> isRsiNotOversold lastRsi)
                  SHORT p closePrices lastMacd lastRsi of
             None \<Rightarrow> (log1, Panic)
           | Some (log2, shorts) \<Rightarrow> (log1 @ log2, Done longs shorts)))"

definition analyzePair :: "platform \<Rightarrow> KuCoinGateway \<Rightarrow> string \<Rightarrow> entry list \<times> task_end" where
  "analyzePair pl kg p =
     (case GetKlines kg p 60 100 of
        Inl err \<Rightarrow> ([Log_Analyzing p, Log_KlinesError p err], KlinesError)
      | Inr klines \<Rightarrow>
          (case closePricesOf (ParseFloat pl) klines of
             Panicked \<Rightarrow> ([Log_Analyzing p], Panic)
           | Failed err \<Rightarrow> ([Log_Analyzing p, Log_ParseError p err], ParseError)
           | Ok parsed \<Rightarrow>
               (let closePrices = reverse parsed in
                if length closePrices < 26 then
                  ([Log_Analyzing p, Log_NotEnoughData p], NotEnoughData)
                else
                  (case talib_Macd pl closePrices 12 26 9 of
                     (macd, macdSignal, hist) \<Rightarrow>
                       (let rsi = talib_Rsi pl closePrices 14 in
                        case (index macd (int (length macd) - 1),
                              index macdSignal (int (length macdSignal) - 1),
                              index macd (int (length macd) - 2),
                              index macdSignal (int (length macdSignal) - 2),
                              index rsi (int (length rsi) - 1)) of
                          (Some lastMacd, Some lastMacdSignal, Some prevMacd,
                           Some prevMacdSignal, Some lastRsi) \<Rightarrow>
                            (case judge p closePrices prevMacd prevMacdSignal
                                    lastMacd lastMacdSignal lastRsi of
                               (lg, e) \<Rightarrow> (Log_Analyzing p # lg, e))
                        | _ \<Rightarrow> ([Log_Analyzing p], Panic))))))"

text \<open>
  The fan-out and the join. The tasks share nothing but the two candidate slices, which
  they only append to under the mutex; the model runs them one after the other in the
  order of \<^verbatim>\<open>pairs\<close>, which is one of the schedules. Another schedule permutes the
  candidate lists and interleaves the log. The task started for the pair at position
  \<open>i\<close> is \<open>task i\<close>.

  A panic in a task brings the process down, but not at once: the deferred
  \<^verbatim>\<open>wg.Done()\<close> of the task runs while the panic unwinds, so the other goroutines, the
  main one included, go on until the runtime ends the process. What such a run writes
  and collects is a race; it is not modelled, and the result is \<open>None\<close>.
\<close>

fun runTasks ::
  "(nat \<Rightarrow> string \<Rightarrow> entry list \<times> task_end) \<Rightarrow> nat \<Rightarrow> string list
     \<Rightarrow> (entry list \<times> Asset list \<times> Asset list) option" where
  "runTasks task i [] = Some ([], [], [])"
| "runTasks task i (p # pairs) =
     (case task i p of
        (lg, Panic) \<Rightarrow> None
      | (lg, Done longs shorts) \<Rightarrow>
          (case runTasks task (Suc i) pairs of
             None \<Rightarrow> None
           | Some (lgs, longCandidates, shortCandidates) \<Rightarrow>
               Some (lg @ lgs, longs @ longCandidates, shorts @ shortCandidates))
      | (lg, _) \<Rightarrow>
          (case runTasks task (Suc i) pairs of
             None \<Rightarrow> None
           | Some (lgs, longCandidates, shortCandidates) \<Rightarrow>
               Some (lg @ lgs, longCandidates, shortCandidates)))"

text \<open>
  The report on one candidate set after the join (the source has the block twice, for
  LONG with side "buy" and for SHORT with side "sell").
\<close>

definition report ::
  "platform \<Rightarrow> OpenAIGateway \<Rightarrow> direction \<Rightarrow> string \<Rightarrow> Asset list \<Rightarrow> entry list" where
  "report pl og d side candidates =
     (if length candidates > 0 then
        (let assetInfo =
               map (\<lambda>asset. Sprintf_info pl (Symbol asset) (CalculateROI asset)
                               (MACD asset) (RSI asset)) candidates
         in [Log_Found d (length candidates)] @ map Log_Info assetInfo @ [Log_AskingOpenAI d] @
            (case AskAboutAssets og assetInfo side of
               Inl err \<Rightarrow> [Log_AnalysisError d err]
             | Inr analysis \<Rightarrow> [Print_Analysis d analysis]))
      else [Log_NoCandidates d])"

text \<open>
  How a call that is carried through ends: it returns, or the process exits with a status
  (\<^verbatim>\<open>log.Fatalf\<close> logs and calls \<^verbatim>\<open>os.Exit(1)\<close>).
\<close>

datatype ending = Returns | Exits int

record scan =
  written :: "entry list"
  ended :: ending
  longCandidates :: "Asset list"
  shortCandidates :: "Asset list"

text \<open>
  \<open>kg 0\<close> is the gateway as it answers the lookup of the pairs, and \<open>kg (Suc i)\<close> the
  gateway as it answers the task started for the pair at position \<open>i\<close>. The result is
  \<open>None\<close> when a task panics.
\<close>

definition AnalyzeTrends ::
  "platform \<Rightarrow> (nat \<Rightarrow> KuCoinGateway) \<Rightarrow> OpenAIGateway \<Rightarrow> scan option" where
  "AnalyzeTrends pl kg og =
     (case GetTop20USDTpairsByVolume (kg 0) of
        Inl err \<Rightarrow>
          Some \<lparr>written = [Log_FetchingTop20, Log_Fatal_TopPairs err], ended = Exits 1,
                longCandidates = [], shortCandidates = []\<rparr>
      | Inr pairs \<Rightarrow>
          (case runTasks (\<lambda>i. analyzePair pl (kg (Suc i))) 0 pairs of
             None \<Rightarrow> None
           | Some (lgs, longs, shorts) \<Rightarrow>
               Some \<lparr>written = [Log_FetchingTop20, Log_FoundPairs pairs] @ lgs
                       @ report pl og LONG ''buy'' longs @ report pl og SHORT ''sell'' shorts,
                     ended = Returns, longCandidates = longs, shortCandidates = shorts\<rparr>))"

section \<open>ExecuteTrade\<close>

text \<open>
  What ExecuteTrade does, in order: its log lines, its calls of the gateway and its
  sleeps. The size of an order is the string \<^verbatim>\<open>fmt.Sprintf("%f", size)\<close>; the
  rendering is a parameter.
\<close>

datatype event =
    Log_DryRun
  | Log_InvalidSide string
  | Log_Starting string string f64
  | Log_PriceFailed string error
  | Log_CurrentPrice string f64
  | Log_Placing string string string
  | Log_OrderFailed string error
  | Log_OrderPlaced string string
  | Log_AssumedEntry f64
  | Log_WillSell f64
  | Log_WillBuy f64
  | Log_LatestPriceFailed string error
  | Log_LatestPrice string f64
  | Log_TargetReached string
  | Log_CloseOrderPlaced string string
  | Call_GetCurrentPrice string
  | Call_CreateOrder string string string string
  | Sleep_30s

text \<open>
  ExecuteTrade calls \<^verbatim>\<open>GetCurrentPrice\<close> and \<^verbatim>\<open>CreateOrder\<close> again and again with
  the same arguments, and the answers change with time. The gateway is therefore given by
  its answers in the order of the calls: the answer to the first price lookup, the answer
  to the entry order, and for every iteration of the monitor loop the answer to the
  price lookup of that iteration and the answer an exit order gets in that iteration.
\<close>

type_synonym poll = "(error + f64) \<times> (error + string)"

record exchange =
  priceAtEntry :: "error + f64"
  entryOrder :: "error + string"
  polls :: "poll list"

text \<open>The condition under which an iteration places the exit order.\<close>

definition targetReached :: "string \<Rightarrow> f64 \<Rightarrow> f64 \<Rightarrow> bool" where
  "targetReached side latestPrice targetPrice =
     ((side = ''buy'' \<and> fge latestPrice targetPrice)
      \<or> (side = ''sell'' \<and> fle latestPrice targetPrice))"

text \<open>
  One iteration of the monitor loop. The boolean is \<open>True\<close> when the iteration reaches
  \<^verbatim>\<open>break\<close>, and \<open>False\<close> when it ends in \<^verbatim>\<open>continue\<close> or falls through to the
  next iteration.
\<close>

definition iteration ::
  "(f64 \<Rightarrow> string) \<Rightarrow> string \<Rightarrow> string \<Rightarrow> f64 \<Rightarrow> f64 \<Rightarrow> poll \<Rightarrow> event list \<times> bool" where
  "iteration Sprintf_f symbol side size' targetPrice answers =
     (case fst answers of
        Inl err \<Rightarrow>
          ([Sleep_30s, Call_GetCurrentPrice symbol, Log_LatestPriceFailed symbol err], False)
      | Inr latestPrice \<Rightarrow>
          (if targetReached side latestPrice targetPrice then
             (let closeSide = (if side = ''sell'' then ''buy'' else ''sell'');
                  closeSizeStr = Sprintf_f size'
              in case snd answers of
                   Inl err \<Rightarrow>
                     ([Sleep_30s, Call_GetCurrentPrice symbol, Log_LatestPrice symbol latestPrice,
                       Log_TargetReached closeSide,
                       Call_CreateOrder symbol closeSide ''market'' closeSizeStr,
                       Log_OrderFailed closeSide err], False)
                 | Inr closeOrderID \<Rightarrow>
                     ([Sleep_30s, Call_GetCurrentPrice symbol, Log_LatestPrice symbol latestPrice,
                       Log_TargetReached closeSide,
                       Call_CreateOrder symbol closeSide ''market'' closeSizeStr,
                       Log_CloseOrderPlaced closeSide closeOrderID], True))
           else
             ([Sleep_30s, Call_GetCurrentPrice symbol, Log_LatestPrice symbol latestPrice],
              False)))"

text \<open>
  The loop \<^verbatim>\<open>for { ... }\<close> has no bound. Run against the answers of finitely many
  iterations, it either leaves through \<^verbatim>\<open>break\<close> (\<open>True\<close>) or has used up the
  answers and stands at the head of the loop again (\<open>False\<close>).
\<close>

fun monitor ::
  "(f64 \<Rightarrow> string) \<Rightarrow> string \<Rightarrow> string \<Rightarrow> f64 \<Rightarrow> f64 \<Rightarrow> poll list \<Rightarrow> event list \<times> bool" where
  "monitor Sprintf_f symbol side size' targetPrice [] = ([], False)"
| "monitor Sprintf_f symbol side size' targetPrice (answers # later) =
     (case iteration Sprintf_f symbol side size' targetPrice answers of
        (events, True) \<Rightarrow> (events, True)
      | (events, False) \<Rightarrow>
          (case monitor Sprintf_f symbol side size' targetPrice later of
             (rest, left) \<Rightarrow> (events @ rest, left)))"

text \<open>
  Where an execution stands when ExecuteTrade returns, or, for \<open>Monitoring\<close>, after the
  iterations that the given answers cover.
\<close>

datatype trade_end =
    DryRun
  | InvalidSide
  | NoEntryPrice
  | EntryOrderFailed
  | Monitoring
  | Exited

definition targetOf :: "string \<Rightarrow> f64 \<Rightarrow> f64" where
  "targetOf side entryPrice =
     (if side = ''buy'' then fmul entryPrice (f64_of_real 1.01)
      else fmul entryPrice (f64_of_real 0.99))"

definition ExecuteTrade ::
  "(f64 \<Rightarrow> string) \<Rightarrow> exchange \<Rightarrow> string \<Rightarrow> string \<Rightarrow> f64 \<Rightarrow> bool \<Rightarrow> event list \<times> trade_end" where
  "ExecuteTrade Sprintf_f ex symbol side amountUSD execute =
     (if \<not> execute then ([Log_DryRun], DryRun)
      else if side \<noteq> ''buy'' \<and> side \<noteq> ''sell'' then ([Log_InvalidSide side], InvalidSide)
      else
        (case priceAtEntry ex of
           Inl err \<Rightarrow>
             ([Log_Starting symbol side amountUSD, Call_GetCurrentPrice symbol,
               Log_PriceFailed symbol err], NoEntryPrice)
         | Inr currentPrice \<Rightarrow>
             (let size' = fdiv amountUSD currentPrice;
                  sizeStr = Sprintf_f size'
              in case entryOrder ex of
                   Inl err \<Rightarrow>
                     ([Log_Starting symbol side amountUSD, Call_GetCurrentPrice symbol,
                       Log_CurrentPrice symbol currentPrice, Log_Placing side symbol sizeStr,
                       Call_CreateOrder symbol side ''market'' sizeStr,
                       Log_OrderFailed side err], EntryOrderFailed)
                 | Inr orderID \<Rightarrow>
                     (let entryPrice = currentPrice;
                          targetPrice = targetOf side entryPrice
                      in case monitor Sprintf_f symbol side size' targetPrice (polls ex) of
                           (events, left) \<Rightarrow>
                             ([Log_Starting symbol side amountUSD, Call_GetCurrentPrice symbol,
                               Log_CurrentPrice symbol currentPrice,
                               Log_Placing side symbol sizeStr,
                               Call_CreateOrder symbol side ''market'' sizeStr,
                               Log_OrderPlaced side orderID, Log_AssumedEntry entryPrice,
                               (if side = ''buy'' then Log_WillSell targetPrice
                                else Log_WillBuy targetPrice)] @ events,
                              if left then Exited else Monitoring)))))"

text \<open>
  The states the specification gives the Trade Execution Controller, and the state in
  which each way of ending leaves it.
\<close>

datatype status = Pending_entry | Open | Closing | Closed | Aborted

fun status_of :: "trade_end \<Rightarrow> status" where
  "status_of DryRun = Aborted"
| "status_of InvalidSide = Aborted"
| "status_of NoEntryPrice = Aborted"
| "status_of EntryOrderFailed = Aborted"
| "status_of Monitoring = Open"
| "status_of Exited = Closed"

fun is_call :: "event \<Rightarrow> bool" where
  "is_call (Call_GetCurrentPrice symbol) = True"
| "is_call (Call_CreateOrder symbol side kind sizeStr) = True"
| "is_call _ = False"

section \<open>The KuCoin gateway\<close>

text \<open>
  \<^verbatim>\<open>fmt.Sprintf("%d", n)\<close>: the decimal digits of an integer.
\<close>

fun digits :: "nat \<Rightarrow> string" where
  "digits n =
     (if n < 10 then [''0123456789'' ! n]
      else digits (n div 10) @ [''0123456789'' ! (n mod 10)])"

definition decimal :: "int \<Rightarrow> string" where
  "decimal i = (if i < 0 then CHR ''-'' # digits (nat (- i)) else digits (nat i))"

text \<open>
  The gateway reaches the exchange through \<^verbatim>\<open>httpClient.Get\<close> and decodes the answer
  with \<^verbatim>\<open>json.Unmarshal\<close>; both are parameters. A decoder returns its error, if any,
  and the fields of the struct as it leaves them (a field the body lacks keeps its zero
  value, and a failed decoding may have set some fields already). \<open>'v\<close> is the type
  of the values of \<^verbatim>\<open>interface{}\<close> in the second decoding of GetKlines, rendered by
  \<^verbatim>\<open>fmt.Sprintf("%v", v)\<close>.
\<close>

record 'v wire =
  http_Get :: "string \<Rightarrow> error + string"
  Unmarshal_price :: "string \<Rightarrow> error option \<times> string \<times> f64"
  Unmarshal_kline :: "string \<Rightarrow> error option \<times> string \<times> string list list"
  Unmarshal_rawKline :: "string \<Rightarrow> error option \<times> string \<times> 'v list list"
  Sprintf_v :: "'v \<Rightarrow> string"

record gateway =
  baseURL :: string
  apiKey :: string
  apiSecret :: string
  passphrase :: string

text \<open>
  Both methods return the URLs they requested next to their result.
\<close>

definition KuCoin_GetCurrentPrice ::
  "'v wire \<Rightarrow> gateway \<Rightarrow> string \<Rightarrow> string list \<times> (error + f64)" where
  "KuCoin_GetCurrentPrice w g symbol =
     (let url = baseURL g @ ''/api/v1/ticker?symbol='' @ symbol
      in ([url],
          case http_Get w url of
            Inl err \<Rightarrow> Inl (Wrap (''failed to get current price for '' @ symbol) err)
          | Inr respBody \<Rightarrow>
              (case Unmarshal_price w respBody of
                 (Some err, code, price) \<Rightarrow>
                   Inl (Wrap (''failed to unmarshal price response for '' @ symbol) err)
               | (None, code, price) \<Rightarrow>
                   if code \<noteq> ''200000'' then
                     Inl (Err (''KuCoin API error for price '' @ symbol @ '': '' @ respBody))
                   else Inr price)))"

definition klineData ::
  "'v wire \<Rightarrow> string \<Rightarrow> string \<Rightarrow> error + string \<times> string list list" where
  "klineData w symbol respBody =
     (case Unmarshal_kline w respBody of
        (None, code, rows) \<Rightarrow> Inr (code, rows)
      | (Some err, code, rows) \<Rightarrow>
          (case Unmarshal_rawKline w respBody of
             (Some err2, rawCode, rawRows) \<Rightarrow>
               Inl (Wrap (''failed to unmarshal kline response for '' @ symbol) err2)
           | (None, rawCode, rawRows) \<Rightarrow>
               if rawCode \<noteq> ''200000'' then
                 Inl (Err (''KuCoin API error for kline '' @ symbol @ '': '' @ respBody))
               else Inr (code, map (map (Sprintf_v w)) rawRows)))"

definition KuCoin_GetKlines ::
  "'v wire \<Rightarrow> gateway \<Rightarrow> string \<Rightarrow> int \<Rightarrow> int \<Rightarrow> string list \<times> (error + string list list)" where
  "KuCoin_GetKlines w g symbol granularity count =
     (let endpoint = ''/api/v1/kline/query?symbol='' @ symbol
                       @ ''&granularity='' @ decimal granularity;
          url = baseURL g @ endpoint
      in ([url],
          case http_Get w url of
            Inl err \<Rightarrow> Inl (Wrap (''failed to get klines for '' @ symbol) err)
          | Inr respBody \<Rightarrow>
              (case klineData w symbol respBody of
                 Inl err \<Rightarrow> Inl err
               | Inr (code, rows) \<Rightarrow>
                   if code \<noteq> ''200000'' \<and> code \<noteq> '''' then
                     Inl (Err (''KuCoin API error for kline '' @ symbol @ '': '' @ respBody))
                   else if length rows = 0 then
                     Inl (Err (''no kline data returned for '' @ symbol))
                   else Inr rows)))"

section \<open>Auxiliary notions for the statements\<close>

text \<open>The assets a task appended, read off the way it ended.\<close>

fun longs_of :: "task_end \<Rightarrow> Asset list" where
  "longs_of (Done longs shorts) = longs"
| "longs_of _ = []"

fun shorts_of :: "task_end \<Rightarrow> Asset list" where
  "shorts_of (Done longs shorts) = shorts"
| "shorts_of _ = []"

text \<open>
  A task that ended at one of its three early returns (the price history could not be
  fetched, a close price did not parse, or the history is too short), and the log
  entries that report such an end for a symbol.
\<close>

fun skipped :: "task_end \<Rightarrow> bool" where
  "skipped KlinesError = True"
| "skipped ParseError = True"
| "skipped NotEnoughData = True"
| "skipped _ = False"

fun reports :: "string \<Rightarrow> entry \<Rightarrow> bool" where
  "reports p (Log_KlinesError q err) = (q = p)"
| "reports p (Log_ParseError q err) = (q = p)"
| "reports p (Log_NotEnoughData q) = (q = p)"
| "reports p _ = False"

text \<open>
  A concrete scan for the examples: five instruments, of which UP shows a golden cross,
  DOWN a dead cross, NEW has three candles only, BAD has a close price that does not
  parse and OFF cannot be fetched. The indicator functions are stand-ins that return
  fixed series.
\<close>

definition demo_platform :: platform where
  "demo_platform =
     \<lparr>talib_Macd = (\<lambda>closePrices fast slow signal.
         if hd closePrices = Fin 1 then ([Fin (- 1), Fin 1], [Fin 0, Fin 0], [])
         else ([Fin 1, Fin (- 1)], [Fin 0, Fin 0], [])),
      talib_Rsi = (\<lambda>closePrices period. [Fin 50]),
      ParseFloat = (\<lambda>s. if s = ''1'' then Inr (Fin 1) else if s = ''2'' then Inr (Fin 2)
                         else Inl (Err ''invalid syntax'')),
      Sprintf_info = (\<lambda>symbol roi macd rsi. symbol)\<rparr>"

definition demo_gateway :: KuCoinGateway where
  "demo_gateway =
     \<lparr>GetTop20USDTpairsByVolume = Inr [''UP'', ''DOWN'', ''NEW'', ''BAD'', ''OFF''],
      GetKlines = (\<lambda>symbol granularity count.
         if symbol = ''UP'' then Inr (replicate 26 [''t'', ''o'', ''1''])
         else if symbol = ''DOWN'' then Inr (replicate 26 [''t'', ''o'', ''2''])
         else if symbol = ''NEW'' then Inr (replicate 3 [''t'', ''o'', ''1''])
         else if symbol = ''BAD'' then Inr [[''t'', ''o'', ''x'']]
         else Inl (Err ''timeout''))\<rparr>"

definition demo_openai :: OpenAIGateway where
  "demo_openai = \<lparr>AskAboutAssets = (\<lambda>infos side. Inr side)\<rparr>"

text \<open>
  A second scan: the symbol X is listed twice, and its history shows a golden cross at
  the call of the first task and a dead cross at the call of the second.
\<close>

definition demo_twice :: "nat \<Rightarrow> KuCoinGateway" where
  "demo_twice i =
     \<lparr>GetTop20USDTpairsByVolume = Inr [''X'', ''X''],
      GetKlines = (\<lambda>symbol granularity count.
         if i = 1 then Inr (replicate 26 [''t'', ''o'', ''1''])
         else Inr (replicate 26 [''t'', ''o'', ''2'']))\<rparr>"

text \<open>
  The scan without the task at position \<open>n\<close>: its pair is taken off the list, and
  every other task keeps the answers it had.
\<close>

definition without_task :: "nat \<Rightarrow> (nat \<Rightarrow> KuCoinGateway) \<Rightarrow> nat \<Rightarrow> KuCoinGateway" where
  "without_task n kg j =
     (if j = 0 then
        (kg 0)\<lparr>GetTop20USDTpairsByVolume :=
          (case GetTop20USDTpairsByVolume (kg 0) of
             Inl err \<Rightarrow> Inl err
           | Inr pairs \<Rightarrow> Inr (take n pairs @ drop (Suc n) pairs))\<rparr>
      else if j \<le> n then kg j
      else kg (Suc j))"

text \<open>
  The answers of an iteration close the position: the price lookup succeeds with a price
  that has reached the target, and the exit order succeeds.
\<close>

fun closes :: "string \<Rightarrow> f64 \<Rightarrow> poll \<Rightarrow> bool" where
  "closes side targetPrice (Inr latestPrice, Inr closeOrderID) =
     targetReached side latestPrice targetPrice"
| "closes side targetPrice _ = False"


text \<open>Stand-ins for the examples of ExecuteTrade.\<close>

definition demo_Sprintf_f :: "f64 \<Rightarrow> string" where
  "demo_Sprintf_f x =
     (case x of NaN \<Rightarrow> ''NaN'' | NInf \<Rightarrow> ''-Inf'' | PInf \<Rightarrow> ''+Inf''
      | NZero \<Rightarrow> ''-0.000000''
      | Fin r \<Rightarrow> if r = 10 then ''10.000000'' else ''finite'')"

definition demo_exchange :: exchange where
  "demo_exchange =
     \<lparr>priceAtEntry = Inr (Fin 100),
      entryOrder = Inr ''entry-1'',
      polls = [(Inl (Err ''timeout''), Inr ''unused''),
               (Inr (Fin 100), Inr ''unused''),
               (Inr (Fin 102), Inl (Err ''rejected'')),
               (Inr (Fin 101), Inr ''exit-1''),
               (Inr (Fin 103), Inr ''never'')]\<rparr>"

text \<open>
  A short position entered at 10 whose first polled price is the float64 nearest to 9.9.
\<close>

definition demo_short :: exchange where
  "demo_short =
     \<lparr>priceAtEntry = Inr (Fin 10),
      entryOrder = Inr ''entry-2'',
      polls = [(Inr (f64_of_real 9.9), Inr ''exit-2'')]\<rparr>"

text \<open>Stand-ins for the examples of the gateway.\<close>

definition demo_wire :: "nat wire" where
  "demo_wire =
     \<lparr>http_Get = (\<lambda>url. Inr ''body''),
      Unmarshal_price = (\<lambda>body. (None, ''200000'', Fin 0)),
      Unmarshal_kline = (\<lambda>body. (None, ''200000'', [[''t'', ''o'', ''1'']])),
      Unmarshal_rawKline = (\<lambda>body. (None, ''200000'', [])),
      Sprintf_v = (\<lambda>v. ''v'')\<rparr>"

definition demo_kucoin :: gateway where
  "demo_kucoin =
     \<lparr>baseURL = ''https://api-futures.kucoin.com'', apiKey = ''key'', apiSecret = ''secret'',
      passphrase = ''phrase''\<rparr>"

declare digits.simps [simp del]
declare reverse_loop.simps [simp del]

section \<open>Comparisons\<close>

lemma flt_Fin [simp]: "flt (Fin a) (Fin b) \<longleftrightarrow> a < b"
  by (simp add: flt_def)

lemma feq_Fin [simp]: "feq (Fin a) (Fin b) \<longleftrightarrow> a = b"
  by (simp add: feq_def is_inf_def)

lemma fle_Fin [simp]: "fle (Fin a) (Fin b) \<longleftrightarrow> a \<le> b"
  by (auto simp: fle_def)

lemma fge_Fin [simp]: "fge (Fin a) (Fin b) \<longleftrightarrow> b \<le> a"
  by (simp add: fge_def)

lemma fgt_Fin [simp]: "fgt (Fin a) (Fin b) \<longleftrightarrow> b < a"
  by (simp add: fgt_def)

lemma flt_irrefl: "\<not> flt a a"
  by (cases a) (simp_all add: flt_def)

lemma flt_asym: "flt a b \<Longrightarrow> \<not> flt b a"
  by (cases a; cases b) (simp_all add: flt_def)

section \<open>Rounding\<close>

lemma climb_le: "2 powi e \<le> m \<Longrightarrow> 2 powi (climb n e m) \<le> m"
  by (induction n arbitrary: e) auto

lemma climb_ge: "e \<le> climb n e m"
proof (induction n arbitrary: e)
  case (Suc n)
  from Suc [of "e + 1"] show ?case by auto
qed simp

lemma climb_eq:
  "e0 \<le> e \<Longrightarrow> nat (e - e0) \<le> n \<Longrightarrow> 2 powi e \<le> m \<Longrightarrow> m < 2 powi (e + 1) \<Longrightarrow>
   climb n e0 m = e"
proof (induction n arbitrary: e0)
  case 0
  then show ?case by simp
next
  case (Suc n)
  show ?case
  proof (cases "e0 = e")
    case True
    with Suc.prems show ?thesis by simp
  next
    case False
    with Suc.prems have lt: "e0 + 1 \<le> e" by simp
    then have "(2::real) powi (e0 + 1) \<le> 2 powi e"
      by (intro power_int_increasing) simp_all
    with Suc.prems have up: "2 powi (e0 + 1) \<le> m" by simp
    from Suc.prems lt have "climb n (e0 + 1) m = e"
      by (intro Suc.IH) auto
    with up show ?thesis by simp
  qed
qed

lemma exponent_eqI:
  "- 1022 \<le> e \<Longrightarrow> e \<le> 1024 \<Longrightarrow> 2 powi e \<le> m \<Longrightarrow> m < 2 powi (e + 1) \<Longrightarrow> exponent m = e"
  unfolding exponent_def by (rule climb_eq) auto

lemma exponent_le: "2 powi (- 1022) \<le> m \<Longrightarrow> 2 powi (exponent m) \<le> m"
  unfolding exponent_def by (rule climb_le)

lemma nearest_even_error: "\<bar>of_int (nearest_even x) - x\<bar> \<le> 1 / 2"
  unfolding nearest_even_def Let_def by (auto simp: abs_if) linarith+

text \<open>
  The relative error of rounding a magnitude in the normal range is at most
  \<open>1 / 2 ^ 53\<close>.
\<close>

lemma round_mag_error:
  assumes "2 powi (- 1022) \<le> m"
  shows "\<bar>round_mag m - m\<bar> \<le> m / 2 ^ 53"
proof -
  define q :: real where "q = 2 powi (exponent m - 52)"
  have qpos: "0 < q" by (simp add: q_def)
  have "q = 2 powi (exponent m) / 2 ^ 52"
    by (simp add: q_def power_int_diff)
  with exponent_le [OF assms] have qle: "q \<le> m / 2 ^ 52"
    by (simp add: divide_right_mono)
  have "round_mag m - m = (of_int (nearest_even (m / q)) - m / q) * q"
    using qpos by (simp add: round_mag_def q_def [symmetric] Let_def algebra_simps)
  then have "\<bar>round_mag m - m\<bar> = \<bar>of_int (nearest_even (m / q)) - m / q\<bar> * q"
    using qpos by (simp add: abs_mult)
  also have "\<dots> \<le> (1 / 2) * q"
    using nearest_even_error [of "m / q"] qpos by (intro mult_right_mono) simp_all
  also have "\<dots> \<le> (1 / 2) * (m / 2 ^ 52)"
    using qle by simp
  also have "\<dots> = m / 2 ^ 53" by simp
  finally show ?thesis .
qed

lemma round_mag_eval:
  "- 1022 \<le> e \<Longrightarrow> e \<le> 1024 \<Longrightarrow> 2 powi e \<le> m \<Longrightarrow> m < 2 powi (e + 1) \<Longrightarrow>
   round_mag m = of_int (nearest_even (m / 2 powi (e - 52))) * 2 powi (e - 52)"
  by (simp add: round_mag_def exponent_eqI Let_def)

text \<open>
  A magnitude in the normal range, below \<open>2 powi 1023\<close>, rounds to a finite number other
  than 0 with the sign asked for, at a relative distance of \<open>1 / 2 ^ 53\<close> at most.
\<close>

lemma mk_normal:
  assumes "2 powi (- 1022) \<le> m" and "m < 2 powi 1023"
  shows "\<exists>r. 0 < r \<and> mk negative m = Fin (if negative then - r else r)
              \<and> \<bar>r - m\<bar> \<le> m / 2 ^ 53"
proof -
  have mpos: "0 < m" using assms(1) by (smt (verit) zero_less_power_int)
  note err = round_mag_error [OF assms(1)]
  have small: "m / 2 ^ 53 < m" using mpos by (simp add: field_simps)
  from err small have pos: "0 < round_mag m" by linarith
  have "m / 2 ^ 53 \<le> m" using small by simp
  with err have "round_mag m \<le> 2 * m" by linarith
  also have "\<dots> < 2 * 2 powi 1023" using assms(2) by simp
  also have "\<dots> = 2 powi 1024" by simp
  finally have "round_mag m < 2 powi 1024" .
  with pos err show ?thesis
    by (intro exI [of _ "round_mag m"]) (simp add: mk_def Let_def)
qed

lemma mk_eval:
  assumes "- 1022 \<le> e" and "e \<le> 1023" and "2 powi e \<le> m" and "m < 2 powi (e + 1)"
    and "of_int (nearest_even (m / 2 powi (e - 52))) * 2 powi (e - 52) = r"
    and "0 < r" and "r < 2 powi 1024"
  shows "mk False m = Fin r" and "mk True m = Fin (- r)"
proof -
  have "round_mag m = r"
    using round_mag_eval [of e m] assms(1-5) by simp
  with assms(6,7) show "mk False m = Fin r" and "mk True m = Fin (- r)"
    by (simp_all add: mk_def Let_def)
qed

section \<open>Operations on finite numbers\<close>

lemma fmul_Fin:
  assumes "2 powi (- 1022) \<le> \<bar>a * b\<bar>" and "\<bar>a * b\<bar> < 2 powi 1023"
  shows "\<exists>r. fmul (Fin a) (Fin b) = Fin r \<and> \<bar>r - a * b\<bar> \<le> \<bar>a * b\<bar> / 2 ^ 53
              \<and> (r < 0 \<longleftrightarrow> a * b < 0) \<and> r \<noteq> 0"
proof -
  have nz: "a * b \<noteq> 0" using assms(1) by (smt (verit) zero_less_power_int abs_zero)
  then have a: "a \<noteq> 0" and b: "b \<noteq> 0" by auto
  have sign: "(a < 0) \<noteq> (b < 0) \<longleftrightarrow> a * b < 0"
    using a b by (auto simp: mult_less_0_iff not_less order_le_less)
  obtain r where r: "0 < r"
    "mk (a * b < 0) \<bar>a * b\<bar> = Fin (if a * b < 0 then - r else r)"
    "\<bar>r - \<bar>a * b\<bar>\<bar> \<le> \<bar>a * b\<bar> / 2 ^ 53"
    using mk_normal [OF assms, of "a * b < 0"] by blast
  have "fmul (Fin a) (Fin b) = Fin (if a * b < 0 then - r else r)"
    using r(2) sign by (simp add: fmul_def is_inf_def abs_mult)
  moreover have "\<bar>(if a * b < 0 then - r else r) - a * b\<bar> \<le> \<bar>a * b\<bar> / 2 ^ 53"
    using r(3) by (auto simp: abs_if split: if_splits)
  ultimately show ?thesis using r(1) by (intro exI [of _ "if a * b < 0 then - r else r"]) auto
qed

lemma fdiv_Fin:
  assumes "b \<noteq> 0" and "2 powi (- 1022) \<le> \<bar>a / b\<bar>" and "\<bar>a / b\<bar> < 2 powi 1023"
  shows "\<exists>r. fdiv (Fin a) (Fin b) = Fin r \<and> \<bar>r - a / b\<bar> \<le> \<bar>a / b\<bar> / 2 ^ 53
              \<and> (r < 0 \<longleftrightarrow> a / b < 0) \<and> r \<noteq> 0"
proof -
  have nz: "a / b \<noteq> 0" using assms(2) by (smt (verit) zero_less_power_int abs_zero)
  with assms(1) have a: "a \<noteq> 0" by auto
  have sign: "(a < 0) \<noteq> (b < 0) \<longleftrightarrow> a / b < 0"
    using a assms(1) by (auto simp: divide_less_0_iff not_less order_le_less)
  obtain r where r: "0 < r"
    "mk (a / b < 0) \<bar>a / b\<bar> = Fin (if a / b < 0 then - r else r)"
    "\<bar>r - \<bar>a / b\<bar>\<bar> \<le> \<bar>a / b\<bar> / 2 ^ 53"
    using mk_normal [OF assms(2,3), of "a / b < 0"] by blast
  have "fdiv (Fin a) (Fin b) = Fin (if a / b < 0 then - r else r)"
    using r(2) sign assms(1) by (simp add: fdiv_def is_inf_def is_zero_def)
  moreover have "\<bar>(if a / b < 0 then - r else r) - a / b\<bar> \<le> \<bar>a / b\<bar> / 2 ^ 53"
    using r(3) by (auto simp: abs_if split: if_splits)
  ultimately show ?thesis using r(1) by (intro exI [of _ "if a / b < 0 then - r else r"]) auto
qed


section \<open>Values of the examples\<close>

lemma lit_1_01: "f64_of_real 1.01 = Fin (4548635623644201 / 2 ^ 52)"
  unfolding f64_of_real_def
  by (simp, subst mk_eval(1) [where e = 0 and r = "4548635623644201 / 2 ^ 52"])
     (simp_all add: nearest_even_def)

lemma lit_0_99: "f64_of_real 0.99 = Fin (4458563631096791 / 2 ^ 52)"
  unfolding f64_of_real_def
  by (simp, subst mk_eval(1) [where e = "- 1" and r = "4458563631096791 / 2 ^ 52"])
     (simp_all add: nearest_even_def)

lemma lit_9_9: "f64_of_real 9.9 = Fin (5573204538870989 / 2 ^ 49)"
  unfolding f64_of_real_def
  by (simp, subst mk_eval(1) [where e = 3 and r = "5573204538870989 / 2 ^ 49"])
     (simp_all add: nearest_even_def)

lemma lit_10_1: "f64_of_real 10.1 = Fin (5685794529555251 / 2 ^ 49)"
  unfolding f64_of_real_def
  by (simp, subst mk_eval(1) [where e = 3 and r = "5685794529555251 / 2 ^ 49"])
     (simp_all add: nearest_even_def)

lemma target_buy_100: "targetOf ''buy'' (Fin 100) = Fin 101"
  unfolding targetOf_def lit_1_01
  by (simp add: fmul_def is_inf_def, subst mk_eval(1) [where e = 6 and r = 101])
     (simp_all add: nearest_even_def)

lemma target_sell_100: "targetOf ''sell'' (Fin 100) = Fin 99"
  unfolding targetOf_def lit_0_99
  by (simp add: fmul_def is_inf_def, subst mk_eval(1) [where e = 6 and r = 99])
     (simp_all add: nearest_even_def)

lemma target_sell_10: "targetOf ''sell'' (Fin 10) = f64_of_real 9.9"
  unfolding targetOf_def lit_0_99 lit_9_9
  by (simp add: fmul_def is_inf_def,
      subst mk_eval(1) [where e = 3 and r = "5573204538870989 / 2 ^ 49"])
     (simp_all add: nearest_even_def)

lemma target_buy_10: "targetOf ''buy'' (Fin 10) = f64_of_real 10.1"
  unfolding targetOf_def lit_1_01 lit_10_1
  by (simp add: fmul_def is_inf_def,
      subst mk_eval(1) [where e = 3 and r = "5685794529555251 / 2 ^ 49"])
     (simp_all add: nearest_even_def)

lemma size_1000_100: "fdiv (Fin 1000) (Fin 100) = Fin 10"
  by (simp add: fdiv_def is_inf_def is_zero_def, subst mk_eval(1) [where e = 3 and r = 10])
     (simp_all add: nearest_even_def)

section \<open>The reversal loop\<close>

lemma length_reverse_loop: "length (reverse_loop i j xs) = length xs"
  by (induction i j xs rule: reverse_loop.induct) (subst reverse_loop.simps, simp)

lemma nth_reverse_loop:
  "j < length xs \<Longrightarrow> k < length xs \<Longrightarrow>
   reverse_loop i j xs ! k = (if i \<le> k \<and> k \<le> j then xs ! (i + j - k) else xs ! k)"
proof (induction i j xs arbitrary: k rule: reverse_loop.induct)
  case (1 i j xs)
  show ?case
  proof (cases "i < j")
    case False
    then have "i \<le> k \<and> k \<le> j \<Longrightarrow> i + j - k = k" by arith
    with False show ?thesis by (simp add: reverse_loop.simps[of i j xs])
  next
    case True
    let ?ys = "xs[i := xs ! j, j := xs ! i]"
    have step: "reverse_loop i j xs = reverse_loop (i + 1) (j - 1) ?ys"
      using True by (simp add: reverse_loop.simps[of i j xs])
    have ih: "reverse_loop (i + 1) (j - 1) ?ys ! k =
        (if i + 1 \<le> k \<and> k \<le> j - 1 then ?ys ! (i + 1 + (j - 1) - k) else ?ys ! k)"
      using "1.IH"[OF True, of k] "1.prems" True by simp
    show ?thesis
      unfolding step ih using True "1.prems"
      by (auto simp: nth_list_update)
  qed
qed

text \<open>The loop turns the newest-first series into the oldest-first one.\<close>

lemma reverse_eq_rev: "reverse xs = rev xs"
proof (cases "xs = []")
  case True
  then show ?thesis by (simp add: reverse_def reverse_loop.simps[of 0 0 "[]"])
next
  case False
  show ?thesis
  proof (rule nth_equalityI)
    show "length (reverse xs) = length (rev xs)"
      by (simp add: reverse_def length_reverse_loop)
  next
    fix k assume "k < length (reverse xs)"
    then have k: "k < length xs" by (simp add: reverse_def length_reverse_loop)
    with False have "reverse xs ! k = xs ! (length xs - 1 - k)"
      unfolding reverse_def by (subst nth_reverse_loop) auto
    also have "\<dots> = rev xs ! k" using k by (simp add: rev_nth)
    finally show "reverse xs ! k = rev xs ! k" .
  qed
qed

section \<open>The trend decision\<close>

lemma createAsset_Some:
  "2 \<le> length closePrices \<Longrightarrow>
   createAsset p closePrices m r =
     Some \<lparr>Symbol = p, CurrentPrice = closePrices ! (length closePrices - 1),
           Price1H = closePrices ! (length closePrices - 2),
           PurchasePrice = Fin 0, Volume24H = Fin 0, MACD = m, RSI = r\<rparr>"
  by (auto simp: createAsset_def index_def nat_diff_distrib')

lemma candidate_Some:
  "2 \<le> length closePrices \<Longrightarrow>
   candidate fires d p closePrices m r =
     Some (if fires
           then ([Log_Candidate d p r],
                 [\<lparr>Symbol = p, CurrentPrice = closePrices ! (length closePrices - 1),
                   Price1H = closePrices ! (length closePrices - 2),
                   PurchasePrice = Fin 0, Volume24H = Fin 0, MACD = m, RSI = r\<rparr>])
           else ([], []))"
  by (simp add: candidate_def createAsset_Some)

text \<open>
  Claim C1, as the code has it. The claim reads the crossover with the previous MACD
  value lower than or equal to (for short: greater than or equal to) the previous signal
  value; the code compares strictly. For every snapshot the task appends a long candidate
  exactly when the previous MACD value is below the previous signal value, the current
  MACD value is above the current signal value and the current RSI is below 70, and a
  short candidate exactly when the previous MACD value is above the previous signal
  value, the current MACD value is below the current signal value and the current RSI is
  above 30. Every candidate carries the symbol of the task. (The series has the two
  prices createAsset reads; the task only decides on series of 26 prices or more.)
\<close>

theorem trend_rules:
  assumes "2 \<le> length closePrices"
  shows "\<exists>lg longs shorts.
           judge p closePrices prevMacd prevMacdSignal lastMacd lastMacdSignal lastRsi
             = (lg, Done longs shorts)
         \<and> (longs \<noteq> [] \<longleftrightarrow>
              flt prevMacd prevMacdSignal \<and> fgt lastMacd lastMacdSignal \<and> flt lastRsi (Fin 70))
         \<and> (shorts \<noteq> [] \<longleftrightarrow>
              fgt prevMacd prevMacdSignal \<and> flt lastMacd lastMacdSignal \<and> fgt lastRsi (Fin 30))
         \<and> (\<forall>a \<in> set longs \<union> set shorts. Symbol a = p)"
  using assms
  by (simp add: judge_def candidate_Some isGoldenCross_def isDeadCross_def
      isRsiNotOverbought_def isRsiNotOversold_def)

text \<open>
  A golden cross from -1 against 0 to 1 against 0 with RSI 50 gives a long candidate and
  no short one.
\<close>

theorem trend_rules_witness:
  "\<exists>lg longs shorts.
     judge ''XBTUSDTM'' [Fin 1, Fin 2] (Fin (- 1)) (Fin 0) (Fin 1) (Fin 0) (Fin 50)
       = (lg, Done longs shorts)
     \<and> longs \<noteq> [] \<and> shorts = []"
  using trend_rules [of "[Fin 1, Fin 2]" "''XBTUSDTM''" "Fin (- 1)" "Fin 0" "Fin 1" "Fin 0" "Fin 50"]
  by (auto simp: fgt_def)

text \<open>
  The snapshot the claim names: previous MACD equal to the previous signal (both 0),
  current MACD 1 above the current signal 0, RSI 50. The task appends no candidate.
\<close>

theorem trend_rules_counterexample:
  "(0::real) \<le> 0 \<and> (1::real) > 0 \<and> (50::real) < 70
   \<and> snd (judge ''XBTUSDTM'' [Fin 1, Fin 2] (Fin 0) (Fin 0) (Fin 1) (Fin 0) (Fin 50)) = Done [] []"
  by (simp add: judge_def candidate_def isGoldenCross_def isDeadCross_def
      isRsiNotOverbought_def isRsiNotOversold_def fgt_def)

section \<open>The scan\<close>

lemma runTasks_calm:
  "\<forall>(k, p) \<in> set (enumerate i pairs). snd (task k p) \<noteq> Panic \<Longrightarrow>
   runTasks task i pairs =
     Some (concat (map (\<lambda>(k, p). fst (task k p)) (enumerate i pairs)),
           concat (map (\<lambda>(k, p). longs_of (snd (task k p))) (enumerate i pairs)),
           concat (map (\<lambda>(k, p). shorts_of (snd (task k p))) (enumerate i pairs)))"
proof (induction pairs arbitrary: i)
  case Nil
  show ?case by simp
next
  case (Cons p pairs)
  obtain lg e where t: "task i p = (lg, e)" by (cases "task i p")
  with Cons.prems have "e \<noteq> Panic" by simp
  moreover from Cons.prems have "\<forall>(k, p) \<in> set (enumerate (Suc i) pairs). snd (task k p) \<noteq> Panic"
    by simp
  ultimately show ?case using Cons.IH [of "Suc i"] t by (cases e) simp_all
qed

lemma runTasks_panic:
  "\<exists>(k, p) \<in> set (enumerate i pairs). snd (task k p) = Panic \<Longrightarrow> runTasks task i pairs = None"
proof (induction pairs arbitrary: i)
  case Nil
  then show ?case by simp
next
  case (Cons p pairs)
  obtain lg e where t: "task i p = (lg, e)" by (cases "task i p")
  show ?case
  proof (cases "e = Panic")
    case True
    with t show ?thesis by simp
  next
    case False
    with Cons.prems t have "\<exists>(k, p) \<in> set (enumerate (Suc i) pairs). snd (task k p) = Panic"
      by auto
    from Cons.IH [OF this] t False show ?thesis by (cases e) simp_all
  qed
qed

lemma runTasks_None_iff:
  "runTasks task i pairs = None \<longleftrightarrow> (\<exists>(k, p) \<in> set (enumerate i pairs). snd (task k p) = Panic)"
proof
  assume "runTasks task i pairs = None"
  show "\<exists>(k, p) \<in> set (enumerate i pairs). snd (task k p) = Panic"
  proof (rule ccontr)
    assume "\<not> ?thesis"
    then have "\<forall>(k, p) \<in> set (enumerate i pairs). snd (task k p) \<noteq> Panic" by auto
    from runTasks_calm [OF this] \<open>runTasks task i pairs = None\<close> show False by simp
  qed
qed (rule runTasks_panic)

lemma judge_eq:
  "2 \<le> length closePrices \<Longrightarrow>
   judge p closePrices prevMacd prevMacdSignal lastMacd lastMacdSignal lastRsi =
     (let asset = \<lparr>Symbol = p, CurrentPrice = closePrices ! (length closePrices - 1),
                   Price1H = closePrices ! (length closePrices - 2),
                   PurchasePrice = Fin 0, Volume24H = Fin 0, MACD = lastMacd, RSI = lastRsi\<rparr>;
          long = isGoldenCross prevMacd prevMacdSignal lastMacd lastMacdSignal
                   \<and> isRsiNotOverbought lastRsi;
          short = isDeadCross prevMacd prevMacdSignal lastMacd lastMacdSignal
                   \<and> isRsiNotOversold lastRsi
      in ((if long then [Log_Candidate LONG p lastRsi] else [])
            @ (if short then [Log_Candidate SHORT p lastRsi] else []),
          Done (if long then [asset] else []) (if short then [asset] else [])))"
  by (simp add: judge_def candidate_Some Let_def)

lemma not_both_crosses:
  "\<not> (isGoldenCross prevMacd prevMacdSignal lastMacd lastMacdSignal
      \<and> isDeadCross prevMacd prevMacdSignal lastMacd lastMacdSignal)"
  using flt_asym [of prevMacd prevMacdSignal]
  by (auto simp: isGoldenCross_def isDeadCross_def fgt_def)

lemma length_reverse: "length (reverse xs) = length xs"
  by (simp add: reverse_def length_reverse_loop)

lemma analyzePair_Done:
  assumes "analyzePair pl kg p = (lg, Done longs shorts)"
  shows "(\<forall>a \<in> set longs \<union> set shorts. Symbol a = p) \<and> (longs = [] \<or> shorts = [])"
  using assms not_both_crosses
  unfolding analyzePair_def
  by (auto simp: Let_def judge_eq split: sum.splits attempt.splits prod.splits option.splits if_splits)

lemma task_candidates:
  "(\<forall>a \<in> set (longs_of (snd (analyzePair pl kg p))) \<union> set (shorts_of (snd (analyzePair pl kg p))).
      Symbol a = p)
   \<and> (longs_of (snd (analyzePair pl kg p)) = [] \<or> shorts_of (snd (analyzePair pl kg p)) = [])"
proof (cases "snd (analyzePair pl kg p)")
  case (Done longs shorts)
  then have "analyzePair pl kg p = (fst (analyzePair pl kg p), Done longs shorts)"
    by (metis prod.collapse)
  from analyzePair_Done [OF this] Done show ?thesis by simp
qed simp_all

lemma AnalyzeTrends_lookup_failed:
  "GetTop20USDTpairsByVolume (kg 0) = Inl err \<Longrightarrow>
   AnalyzeTrends pl kg og =
     Some \<lparr>written = [Log_FetchingTop20, Log_Fatal_TopPairs err], ended = Exits 1,
           longCandidates = [], shortCandidates = []\<rparr>"
  by (simp add: AnalyzeTrends_def)

lemma AnalyzeTrends_None_iff:
  assumes "GetTop20USDTpairsByVolume (kg 0) = Inr pairs"
  shows "AnalyzeTrends pl kg og = None
     \<longleftrightarrow> (\<exists>(k, p) \<in> set (enumerate 0 pairs). snd (analyzePair pl (kg (Suc k)) p) = Panic)"
  using assms runTasks_None_iff [of "\<lambda>i. analyzePair pl (kg (Suc i))" 0 pairs]
  by (auto simp: AnalyzeTrends_def split: option.splits)

lemma AnalyzeTrends_joined:
  assumes "GetTop20USDTpairsByVolume (kg 0) = Inr pairs"
    and "\<forall>(k, p) \<in> set (enumerate 0 pairs). snd (analyzePair pl (kg (Suc k)) p) \<noteq> Panic"
  shows "AnalyzeTrends pl kg og =
     (let longs = concat (map (\<lambda>(k, p). longs_of (snd (analyzePair pl (kg (Suc k)) p)))
                    (enumerate 0 pairs));
          shorts = concat (map (\<lambda>(k, p). shorts_of (snd (analyzePair pl (kg (Suc k)) p)))
                    (enumerate 0 pairs))
      in Some \<lparr>written = [Log_FetchingTop20, Log_FoundPairs pairs]
             @ concat (map (\<lambda>(k, p). fst (analyzePair pl (kg (Suc k)) p)) (enumerate 0 pairs))
             @ report pl og LONG ''buy'' longs @ report pl og SHORT ''sell'' shorts,
          ended = Returns, longCandidates = longs, shortCandidates = shorts\<rparr>)"
  using assms(1) runTasks_calm [of 0 pairs "\<lambda>i. analyzePair pl (kg (Suc i))", OF assms(2)]
  by (simp add: AnalyzeTrends_def Let_def)

lemma enumerate_distinct:
  "distinct pairs \<Longrightarrow> (k, p) \<in> set (enumerate i pairs) \<Longrightarrow> (k', p) \<in> set (enumerate i pairs)
   \<Longrightarrow> k = k'"
proof -
  assume d: "distinct pairs" and a: "(k, p) \<in> set (enumerate i pairs)"
    and b: "(k', p) \<in> set (enumerate i pairs)"
  from a b have k: "i \<le> k" "k - i < length pairs" "pairs ! (k - i) = p"
    and k': "i \<le> k'" "k' - i < length pairs" "pairs ! (k' - i) = p"
    by (auto simp: in_set_enumerate_eq)
  from k(3) k'(3) have "pairs ! (k - i) = pairs ! (k' - i)" by simp
  with d k(2) k'(2) have "k - i = k' - i" by (simp add: nth_eq_iff_index_eq)
  with k(1) k'(1) show "k = k'" by simp
qed

text \<open>
  Claim C5, as the code has it. No snapshot satisfies both the long rule and the short
  rule, so no analysis task appends its instrument to both candidate sets. Every element
  of the list of pairs has a task and a price-history lookup of its own; when the list
  names no symbol twice, no symbol stands in both candidate sets of the scan. (A symbol
  that is listed twice is analysed twice, on two lookups.)
\<close>

theorem long_short_exclusive:
  "\<not> ((isGoldenCross prevMacd prevMacdSignal lastMacd lastMacdSignal \<and> isRsiNotOverbought lastRsi)
      \<and> (isDeadCross prevMacd prevMacdSignal lastMacd lastMacdSignal \<and> isRsiNotOversold lastRsi))
   \<and> (longs_of (snd (analyzePair pl snapshot p)) = []
        \<or> shorts_of (snd (analyzePair pl snapshot p)) = [])
   \<and> (GetTop20USDTpairsByVolume (kg 0) = Inr pairs \<and> distinct pairs
        \<and> AnalyzeTrends pl kg og = Some s \<longrightarrow>
        Symbol ` set (longCandidates s) \<inter> Symbol ` set (shortCandidates s) = {})
   \<and> (GetTop20USDTpairsByVolume (kg 0) = Inl err \<and> AnalyzeTrends pl kg og = Some s \<longrightarrow>
        Symbol ` set (longCandidates s) \<inter> Symbol ` set (shortCandidates s) = {})"
proof (intro conjI impI)
  show "\<not> ((isGoldenCross prevMacd prevMacdSignal lastMacd lastMacdSignal \<and> isRsiNotOverbought lastRsi)
      \<and> (isDeadCross prevMacd prevMacdSignal lastMacd lastMacdSignal \<and> isRsiNotOversold lastRsi))"
    using not_both_crosses [of prevMacd prevMacdSignal lastMacd lastMacdSignal] by blast
  show "longs_of (snd (analyzePair pl snapshot p)) = []
        \<or> shorts_of (snd (analyzePair pl snapshot p)) = []"
    using task_candidates [of pl snapshot p] by blast
next
  assume "GetTop20USDTpairsByVolume (kg 0) = Inl err \<and> AnalyzeTrends pl kg og = Some s"
  then show "Symbol ` set (longCandidates s) \<inter> Symbol ` set (shortCandidates s) = {}"
    by (auto simp: AnalyzeTrends_lookup_failed)
next
  assume a: "GetTop20USDTpairsByVolume (kg 0) = Inr pairs \<and> distinct pairs
        \<and> AnalyzeTrends pl kg og = Some s"
  then have top: "GetTop20USDTpairsByVolume (kg 0) = Inr pairs" and d: "distinct pairs"
    and run: "AnalyzeTrends pl kg og = Some s" by simp_all
  from run AnalyzeTrends_None_iff [where kg = kg and pairs = pairs, OF top, of pl og]
  have calm: "\<forall>(k, p) \<in> set (enumerate 0 pairs). snd (analyzePair pl (kg (Suc k)) p) \<noteq> Panic"
    by auto
  from AnalyzeTrends_joined [where kg = kg and pairs = pairs, OF top calm, of og] run
  have longs: "longCandidates s = concat (map (\<lambda>(k, p). longs_of (snd (analyzePair pl (kg (Suc k)) p)))
                    (enumerate 0 pairs))"
    and shorts: "shortCandidates s = concat (map (\<lambda>(k, p). shorts_of (snd (analyzePair pl (kg (Suc k)) p)))
                    (enumerate 0 pairs))"
    by (auto simp: Let_def)
  show "Symbol ` set (longCandidates s) \<inter> Symbol ` set (shortCandidates s) = {}"
  proof (rule ccontr)
    assume "\<not> ?thesis"
    then obtain a b where "a \<in> set (longCandidates s)" "b \<in> set (shortCandidates s)"
      and eq: "Symbol a = Symbol b" by auto
    then obtain k p k' p' where
      a: "(k, p) \<in> set (enumerate 0 pairs)" "a \<in> set (longs_of (snd (analyzePair pl (kg (Suc k)) p)))" and
      b: "(k', p') \<in> set (enumerate 0 pairs)" "b \<in> set (shorts_of (snd (analyzePair pl (kg (Suc k')) p')))"
      unfolding longs shorts by auto
    from task_candidates [of pl "kg (Suc k)" p] a have "Symbol a = p" by auto
    moreover from task_candidates [of pl "kg (Suc k')" p'] b have "Symbol b = p'" by auto
    ultimately have "p = p'" using eq by simp
    with a b enumerate_distinct [OF d] have "k = k'" by blast
    with \<open>p = p'\<close> task_candidates [of pl "kg (Suc k)" p] a b show False by auto
  qed
qed

text \<open>The example scan, task by task.\<close>

lemma closePricesOf_replicate:
  "index k 2 = Some field \<Longrightarrow> parse field = Inr price \<Longrightarrow>
   closePricesOf parse (replicate n k) = Ok (replicate n price)"
  by (induction n) simp_all

lemma reverse_replicate: "reverse (replicate n x) = replicate n x"
  by (simp add: reverse_eq_rev)

lemma demo_UP:
  "analyzePair demo_platform demo_gateway ''UP'' =
     ([Log_Analyzing ''UP'', Log_Candidate LONG ''UP'' (Fin 50)],
      Done [\<lparr>Symbol = ''UP'', CurrentPrice = Fin 1, Price1H = Fin 1, PurchasePrice = Fin 0,
             Volume24H = Fin 0, MACD = Fin 1, RSI = Fin 50\<rparr>] [])"
  by (simp add: analyzePair_def demo_platform_def demo_gateway_def
      closePricesOf_replicate [where field = "''1''" and price = "Fin 1"] index_def
      reverse_replicate judge_eq isGoldenCross_def isDeadCross_def isRsiNotOverbought_def
      isRsiNotOversold_def Let_def)

lemma demo_DOWN:
  "analyzePair demo_platform demo_gateway ''DOWN'' =
     ([Log_Analyzing ''DOWN'', Log_Candidate SHORT ''DOWN'' (Fin 50)],
      Done [] [\<lparr>Symbol = ''DOWN'', CurrentPrice = Fin 2, Price1H = Fin 2, PurchasePrice = Fin 0,
             Volume24H = Fin 0, MACD = Fin (- 1), RSI = Fin 50\<rparr>])"
  by (simp add: analyzePair_def demo_platform_def demo_gateway_def
      closePricesOf_replicate [where field = "''2''" and price = "Fin 2"] index_def
      reverse_replicate judge_eq isGoldenCross_def isDeadCross_def isRsiNotOverbought_def
      isRsiNotOversold_def Let_def)

lemma demo_NEW:
  "analyzePair demo_platform demo_gateway ''NEW'' =
     ([Log_Analyzing ''NEW'', Log_NotEnoughData ''NEW''], NotEnoughData)"
  by (simp add: analyzePair_def demo_platform_def demo_gateway_def
      closePricesOf_replicate [where field = "''1''" and price = "Fin 1"] index_def
      reverse_replicate Let_def)

lemma demo_BAD:
  "analyzePair demo_platform demo_gateway ''BAD'' =
     ([Log_Analyzing ''BAD'', Log_ParseError ''BAD'' (Err ''invalid syntax'')], ParseError)"
  by (simp add: analyzePair_def demo_platform_def demo_gateway_def index_def)

lemma demo_OFF:
  "analyzePair demo_platform demo_gateway ''OFF'' =
     ([Log_Analyzing ''OFF'', Log_KlinesError ''OFF'' (Err ''timeout'')], KlinesError)"
  by (simp add: analyzePair_def demo_gateway_def)

lemma demo_pairs:
  "GetTop20USDTpairsByVolume demo_gateway = Inr [''UP'', ''DOWN'', ''NEW'', ''BAD'', ''OFF'']"
  by (simp add: demo_gateway_def)

lemma demo_scan:
  "\<exists>lg. AnalyzeTrends demo_platform (\<lambda>i. demo_gateway) demo_openai =
     Some \<lparr>written = lg, ended = Returns,
       longCandidates =
         [\<lparr>Symbol = ''UP'', CurrentPrice = Fin 1, Price1H = Fin 1, PurchasePrice = Fin 0,
           Volume24H = Fin 0, MACD = Fin 1, RSI = Fin 50\<rparr>],
       shortCandidates =
         [\<lparr>Symbol = ''DOWN'', CurrentPrice = Fin 2, Price1H = Fin 2, PurchasePrice = Fin 0,
           Volume24H = Fin 0, MACD = Fin (- 1), RSI = Fin 50\<rparr>]\<rparr>"
  by (simp add: AnalyzeTrends_def demo_pairs demo_UP demo_DOWN demo_NEW demo_BAD demo_OFF)

text \<open>
  The example scan lists five symbols once each; UP is in the long set only and DOWN in
  the short set only.
\<close>

theorem long_short_exclusive_witness:
  "\<exists>s. AnalyzeTrends demo_platform (\<lambda>i. demo_gateway) demo_openai = Some s
     \<and> Symbol ` set (longCandidates s) = {''UP''}
     \<and> Symbol ` set (shortCandidates s) = {''DOWN''}
     \<and> Symbol ` set (longCandidates s) \<inter> Symbol ` set (shortCandidates s) = {}"
proof -
  obtain s where s: "AnalyzeTrends demo_platform (\<lambda>i. demo_gateway) demo_openai = Some s"
    and l: "Symbol ` set (longCandidates s) = {''UP''}"
    and r: "Symbol ` set (shortCandidates s) = {''DOWN''}"
    using demo_scan by auto
  have d: "distinct [''UP'', ''DOWN'', ''NEW'', ''BAD'', ''OFF'']" by simp
  from long_short_exclusive [where kg = "\<lambda>i. demo_gateway" and pl = demo_platform
      and og = demo_openai and s = s and pairs = "[''UP'', ''DOWN'', ''NEW'', ''BAD'', ''OFF'']"]
    demo_pairs d s
  have "Symbol ` set (longCandidates s) \<inter> Symbol ` set (shortCandidates s) = {}" by blast
  with s l r show ?thesis by blast
qed

text \<open>
  The claim has no instrument in both sets of a scan. With X listed twice and its history
  changing between the two lookups, X is a long candidate and a short candidate of one
  scan.
\<close>

theorem long_short_exclusive_counterexample:
  "map_option (\<lambda>s. (map Symbol (longCandidates s), map Symbol (shortCandidates s)))
     (AnalyzeTrends demo_platform demo_twice demo_openai) = Some ([''X''], [''X''])"
proof -
  have top: "GetTop20USDTpairsByVolume (demo_twice 0) = Inr [''X'', ''X'']"
    by (simp add: demo_twice_def)
  have first: "snd (analyzePair demo_platform (demo_twice (Suc 0)) ''X'') =
      Done [\<lparr>Symbol = ''X'', CurrentPrice = Fin 1, Price1H = Fin 1, PurchasePrice = Fin 0,
             Volume24H = Fin 0, MACD = Fin 1, RSI = Fin 50\<rparr>] []"
    by (simp add: analyzePair_def demo_platform_def demo_twice_def
      closePricesOf_replicate [where field = "''1''" and price = "Fin 1"] index_def
      reverse_replicate judge_eq isGoldenCross_def isDeadCross_def isRsiNotOverbought_def
      isRsiNotOversold_def Let_def)
  have second: "snd (analyzePair demo_platform (demo_twice (Suc (Suc 0))) ''X'') =
      Done [] [\<lparr>Symbol = ''X'', CurrentPrice = Fin 2, Price1H = Fin 2, PurchasePrice = Fin 0,
             Volume24H = Fin 0, MACD = Fin (- 1), RSI = Fin 50\<rparr>]"
    by (simp add: analyzePair_def demo_platform_def demo_twice_def
      closePricesOf_replicate [where field = "''2''" and price = "Fin 2"] index_def
      reverse_replicate judge_eq isGoldenCross_def isDeadCross_def isRsiNotOverbought_def
      isRsiNotOversold_def Let_def)
  obtain l1 where t1: "analyzePair demo_platform (demo_twice (Suc 0)) ''X'' =
      (l1, Done [\<lparr>Symbol = ''X'', CurrentPrice = Fin 1, Price1H = Fin 1, PurchasePrice = Fin 0,
             Volume24H = Fin 0, MACD = Fin 1, RSI = Fin 50\<rparr>] [])"
    using first by (cases "analyzePair demo_platform (demo_twice (Suc 0)) ''X''") simp
  obtain l2 where t2: "analyzePair demo_platform (demo_twice (Suc (Suc 0))) ''X'' =
      (l2, Done [] [\<lparr>Symbol = ''X'', CurrentPrice = Fin 2, Price1H = Fin 2, PurchasePrice = Fin 0,
             Volume24H = Fin 0, MACD = Fin (- 1), RSI = Fin 50\<rparr>])"
    using second by (cases "analyzePair demo_platform (demo_twice (Suc (Suc 0))) ''X''") simp
  show ?thesis by (simp add: AnalyzeTrends_def top t1 t2)
qed

section \<open>CalculateROI\<close>


lemma rel_compose:
  fixes x x' y' e1 e2 :: real
  assumes "\<bar>x' - x\<bar> \<le> e1 * \<bar>x\<bar>" and "\<bar>y' - x'\<bar> \<le> e2 * \<bar>x'\<bar>" and "0 \<le> e2"
  shows "\<bar>y' - x\<bar> \<le> (e1 + e2 + e1 * e2) * \<bar>x\<bar>"
proof -
  have "\<bar>x'\<bar> \<le> \<bar>x\<bar> + e1 * \<bar>x\<bar>" using assms(1) by linarith
  then have "e2 * \<bar>x'\<bar> \<le> e2 * (\<bar>x\<bar> + e1 * \<bar>x\<bar>)"
    using assms(3) by (rule mult_left_mono)
  with assms(1,2) have "\<bar>y' - x\<bar> \<le> e2 * (\<bar>x\<bar> + e1 * \<bar>x\<bar>) + e1 * \<bar>x\<bar>" by linarith
  also have "\<dots> = (e1 + e2 + e1 * e2) * \<bar>x\<bar>" by (simp add: algebra_simps)
  finally show ?thesis .
qed


lemma normal_lo: "1 / 2 ^ 1010 \<le> m \<Longrightarrow> 2 powi (- 1022) \<le> (m::real)"
  by (rule order_trans [of _ "1 / 2 ^ 1010"]) simp_all

lemma normal_hi: "m \<le> 2 ^ 1010 \<Longrightarrow> (m::real) < 2 powi 1023"
  by (rule le_less_trans [of _ "2 ^ 1010"]) simp_all

lemma unit_roundoff:
  fixes u :: real
  assumes "u = 1 / 2 ^ 53"
  shows "0 \<le> u" and "(u + u + u * u) + u + (u + u + u * u) * u \<le> 1 / 2 ^ 51"
proof -
  show upos: "0 \<le> u" by (simp add: assms)
  define v where "v = u * u"
  define w where "w = (u + u + v) * u"
  have "v \<le> u / 8" unfolding v_def assms by simp
  moreover have "w \<le> (u + u + v) / 8"
    unfolding w_def v_def assms by simp
  ultimately have "(u + u + v) + u + w \<le> 4 * u" using upos by argo
  moreover have "4 * u = 1 / 2 ^ 51" unfolding assms by simp
  ultimately have "(u + u + v) + u + w \<le> 1 / 2 ^ 51" by simp
  then show "(u + u + u * u) + u + (u + u + u * u) * u \<le> 1 / 2 ^ 51"
    by (simp only: v_def w_def)
qed








section \<open>Failures during a scan\<close>

lemma skipped_no_candidates:
  "skipped e \<Longrightarrow> longs_of e = [] \<and> shorts_of e = []"
  by (cases e) simp_all

lemma analyzePair_reports:
  "skipped (snd (analyzePair pl kg p)) \<Longrightarrow> \<exists>e \<in> set (fst (analyzePair pl kg p)). reports p e"
  unfolding analyzePair_def
  by (auto simp: Let_def judge_eq split: sum.splits attempt.splits prod.splits option.splits if_splits)

lemma runTasks_shift:
  "(\<And>j. i \<le> j \<Longrightarrow> task' j = task (Suc j)) \<Longrightarrow>
   runTasks task' i pairs = runTasks task (Suc i) pairs"
proof (induction pairs arbitrary: i)
  case Nil
  show ?case by simp
next
  case (Cons p pairs)
  have "runTasks task' (Suc i) pairs = runTasks task (Suc (Suc i)) pairs"
    by (rule Cons.IH) (simp add: Cons.prems)
  moreover have "task' i p = task (Suc i) p" by (simp add: Cons.prems)
  ultimately show ?case by simp
qed

lemma runTasks_without:
  assumes "skipped (snd (task (i + length before) p))"
  shows "map_option snd (runTasks task i (before @ p # after)) =
     map_option snd
       (runTasks (\<lambda>j. if j < i + length before then task j else task (Suc j)) i (before @ after))"
  using assms
proof (induction before arbitrary: i)
  case Nil
  obtain lg e where t: "task i p = (lg, e)" by (cases "task i p")
  have "runTasks (\<lambda>j. if j < i then task j else task (Suc j)) i after = runTasks task (Suc i) after"
    by (rule runTasks_shift) simp
  with Nil t show ?case
    by (cases e) (auto split: option.splits)
next
  case (Cons a before)
  let ?task' = "\<lambda>j. if j < i + length (a # before) then task j else task (Suc j)"
  have same: "?task' = (\<lambda>j. if j < Suc i + length before then task j else task (Suc j))"
    by (rule ext) simp
  from Cons.prems have "skipped (snd (task (Suc i + length before) p))" by simp
  from Cons.IH [OF this]
  have ih: "map_option snd (runTasks task (Suc i) (before @ p # after)) =
     map_option snd (runTasks ?task' (Suc i) (before @ after))"
    unfolding same .
  have here: "?task' i a = task i a" by simp
  obtain lg e where t: "task i a = (lg, e)" by (cases "task i a")
  show ?case
  proof (cases "runTasks task (Suc i) (before @ p # after)")
    case None
    with ih have "runTasks ?task' (Suc i) (before @ after) = None" by simp
    with None t here show ?thesis by (cases e) simp_all
  next
    case (Some r)
    with ih obtain r' where r': "runTasks ?task' (Suc i) (before @ after) = Some r'"
      and eq: "snd r = snd r'" by (cases "runTasks ?task' (Suc i) (before @ after)") auto
    obtain l1 c1 where r1: "r = (l1, c1)" by (cases r)
    obtain l2 c2 where r2: "r' = (l2, c2)" by (cases r')
    from eq r1 r2 have "c1 = c2" by simp
    with Some r' r1 r2 t here show ?thesis
      by (cases e; cases c2) simp_all
  qed
qed

lemma without_task_tasks:
  "(\<lambda>i. analyzePair pl (without_task n kg (Suc i))) =
   (\<lambda>j. if j < 0 + n then analyzePair pl (kg (Suc j)) else analyzePair pl (kg (Suc (Suc j))))"
  by (rule ext) (auto simp: without_task_def)

lemma without_task_pairs:
  "GetTop20USDTpairsByVolume (kg 0) = Inr (before @ p # after) \<Longrightarrow>
   GetTop20USDTpairsByVolume (without_task (length before) kg 0) = Inr (before @ after)"
  by (simp add: without_task_def)

lemma AnalyzeTrends_without:
  assumes top: "GetTop20USDTpairsByVolume (kg 0) = Inr (before @ p # after)"
    and sk: "skipped (snd (analyzePair pl (kg (Suc (length before))) p))"
  shows "map_option longCandidates (AnalyzeTrends pl kg og)
          = map_option longCandidates (AnalyzeTrends pl (without_task (length before) kg) og)
     \<and> map_option shortCandidates (AnalyzeTrends pl kg og)
          = map_option shortCandidates (AnalyzeTrends pl (without_task (length before) kg) og)
     \<and> map_option ended (AnalyzeTrends pl kg og)
          = map_option ended (AnalyzeTrends pl (without_task (length before) kg) og)"
proof -
  let ?task = "\<lambda>i. analyzePair pl (kg (Suc i))"
  let ?task' = "\<lambda>j. if j < 0 + length before then ?task j else ?task (Suc j)"
  from sk have "skipped (snd (?task (0 + length before) p))" by simp
  from runTasks_without [where task = ?task and i = 0, OF this, of after]
  have eq: "map_option snd (runTasks ?task 0 (before @ p # after))
      = map_option snd (runTasks ?task' 0 (before @ after))" .
  have run': "AnalyzeTrends pl (without_task (length before) kg) og =
      (case runTasks ?task' 0 (before @ after) of
         None \<Rightarrow> None
       | Some (lgs, longs, shorts) \<Rightarrow>
           Some \<lparr>written = [Log_FetchingTop20, Log_FoundPairs (before @ after)] @ lgs
                   @ report pl og LONG ''buy'' longs @ report pl og SHORT ''sell'' shorts,
                 ended = Returns, longCandidates = longs, shortCandidates = shorts\<rparr>)"
    unfolding AnalyzeTrends_def
      without_task_pairs [where kg = kg and before = before and p = p and after = after, OF top]
      without_task_tasks by simp
  have run: "AnalyzeTrends pl kg og =
      (case runTasks ?task 0 (before @ p # after) of
         None \<Rightarrow> None
       | Some (lgs, longs, shorts) \<Rightarrow>
           Some \<lparr>written = [Log_FetchingTop20, Log_FoundPairs (before @ p # after)] @ lgs
                   @ report pl og LONG ''buy'' longs @ report pl og SHORT ''sell'' shorts,
                 ended = Returns, longCandidates = longs, shortCandidates = shorts\<rparr>)"
    unfolding AnalyzeTrends_def top by simp
  show ?thesis
  proof (cases "runTasks ?task 0 (before @ p # after)")
    case None
    with eq have "runTasks ?task' 0 (before @ after) = None" by simp
    with None show ?thesis unfolding run run' by simp
  next
    case (Some r)
    with eq obtain r' where r': "runTasks ?task' 0 (before @ after) = Some r'"
      and same: "snd r = snd r'" by (cases "runTasks ?task' 0 (before @ after)") auto
    obtain l1 a1 b1 where r1: "r = (l1, a1, b1)" by (cases r)
    obtain l2 a2 b2 where r2: "r' = (l2, a2, b2)" by (cases r')
    from same r1 r2 have "a1 = a2" "b1 = b2" by simp_all
    with Some r' r1 r2 show ?thesis unfolding run run' by simp
  qed
qed

lemma analyzePair_too_short:
  assumes "GetKlines kg p 60 100 = Inr klines"
    and "closePricesOf (ParseFloat pl) klines = Ok prices"
    and "length prices < 26"
  shows "analyzePair pl kg p = ([Log_Analyzing p, Log_NotEnoughData p], NotEnoughData)"
  using assms by (simp add: analyzePair_def length_reverse)

text \<open>
  Claim C7. When the price history of an instrument is fetched and parsed and has fewer
  than 26 close prices, its task logs that there is not enough data and returns. The
  outcome does not depend on the indicator functions (they are not called), the task
  appends no candidate, and a scan in which this is the task at some position ends as it
  would without that task, with the same candidates.
\<close>

theorem too_short_series_is_skipped:
  assumes "GetKlines kg p 60 100 = Inr klines"
    and "closePricesOf (ParseFloat pl) klines = Ok prices"
    and "length prices < 26"
  shows "analyzePair pl kg p = ([Log_Analyzing p, Log_NotEnoughData p], NotEnoughData)
    \<and> analyzePair (pl\<lparr>talib_Macd := macd, talib_Rsi := rsi\<rparr>) kg p = analyzePair pl kg p
    \<and> longs_of (snd (analyzePair pl kg p)) = [] \<and> shorts_of (snd (analyzePair pl kg p)) = []
    \<and> (GetTop20USDTpairsByVolume (kgs 0) = Inr (before @ p # after)
         \<and> kgs (Suc (length before)) = kg \<longrightarrow>
         map_option longCandidates (AnalyzeTrends pl kgs og)
           = map_option longCandidates (AnalyzeTrends pl (without_task (length before) kgs) og)
         \<and> map_option shortCandidates (AnalyzeTrends pl kgs og)
           = map_option shortCandidates (AnalyzeTrends pl (without_task (length before) kgs) og)
         \<and> map_option ended (AnalyzeTrends pl kgs og)
           = map_option ended (AnalyzeTrends pl (without_task (length before) kgs) og))"
proof -
  have short: "analyzePair pl kg p = ([Log_Analyzing p, Log_NotEnoughData p], NotEnoughData)"
    using assms by (rule analyzePair_too_short)
  have "closePricesOf (ParseFloat (pl\<lparr>talib_Macd := macd, talib_Rsi := rsi\<rparr>)) klines = Ok prices"
    using assms(2) by simp
  from analyzePair_too_short [OF assms(1) this assms(3)] short
  have same: "analyzePair (pl\<lparr>talib_Macd := macd, talib_Rsi := rsi\<rparr>) kg p = analyzePair pl kg p"
    by simp
  have scan: "map_option longCandidates (AnalyzeTrends pl kgs og)
           = map_option longCandidates (AnalyzeTrends pl (without_task (length before) kgs) og)
         \<and> map_option shortCandidates (AnalyzeTrends pl kgs og)
           = map_option shortCandidates (AnalyzeTrends pl (without_task (length before) kgs) og)
         \<and> map_option ended (AnalyzeTrends pl kgs og)
           = map_option ended (AnalyzeTrends pl (without_task (length before) kgs) og)"
    if "GetTop20USDTpairsByVolume (kgs 0) = Inr (before @ p # after)
         \<and> kgs (Suc (length before)) = kg"
  proof -
    from that have top: "GetTop20USDTpairsByVolume (kgs 0) = Inr (before @ p # after)"
      and at: "kgs (Suc (length before)) = kg" by simp_all
    from short at have sk: "skipped (snd (analyzePair pl (kgs (Suc (length before))) p))" by simp
    show ?thesis
      by (rule AnalyzeTrends_without
          [where kg = kgs and before = before and p = p and after = after, OF top sk])
  qed
  from short same scan show ?thesis by simp
qed

lemma demo_NEW_klines:
  "GetKlines demo_gateway ''NEW'' 60 100 = Inr (replicate 3 [''t'', ''o'', ''1''])
   \<and> closePricesOf (ParseFloat demo_platform) (replicate 3 [''t'', ''o'', ''1''])
       = Ok (replicate 3 (Fin 1))
   \<and> length (replicate 3 (Fin 1)) < 26"
  by (simp add: demo_gateway_def demo_platform_def index_def
      closePricesOf_replicate [where field = "''1''" and price = "Fin 1"])

lemma demo_without_NEW:
  "\<exists>lg. AnalyzeTrends demo_platform (without_task 2 (\<lambda>i. demo_gateway)) demo_openai =
     Some \<lparr>written = lg, ended = Returns,
       longCandidates =
         [\<lparr>Symbol = ''UP'', CurrentPrice = Fin 1, Price1H = Fin 1, PurchasePrice = Fin 0,
           Volume24H = Fin 0, MACD = Fin 1, RSI = Fin 50\<rparr>],
       shortCandidates =
         [\<lparr>Symbol = ''DOWN'', CurrentPrice = Fin 2, Price1H = Fin 2, PurchasePrice = Fin 0,
           Volume24H = Fin 0, MACD = Fin (- 1), RSI = Fin 50\<rparr>]\<rparr>"
  by (simp add: AnalyzeTrends_def without_task_def demo_pairs demo_UP demo_DOWN demo_BAD demo_OFF)

text \<open>
  In the example scan NEW, at position 2, has three candles. The scan returns with UP as
  its long candidate and DOWN as its short candidate, as the scan over the other four
  symbols does.
\<close>

theorem too_short_series_is_skipped_witness:
  "analyzePair demo_platform demo_gateway ''NEW''
     = ([Log_Analyzing ''NEW'', Log_NotEnoughData ''NEW''], NotEnoughData)
   \<and> map_option (map Symbol \<circ> longCandidates)
        (AnalyzeTrends demo_platform (\<lambda>i. demo_gateway) demo_openai) = Some [''UP'']
   \<and> map_option (map Symbol \<circ> longCandidates)
        (AnalyzeTrends demo_platform (without_task 2 (\<lambda>i. demo_gateway)) demo_openai) = Some [''UP'']
   \<and> map_option longCandidates (AnalyzeTrends demo_platform (\<lambda>i. demo_gateway) demo_openai)
       = map_option longCandidates
           (AnalyzeTrends demo_platform (without_task 2 (\<lambda>i. demo_gateway)) demo_openai)
   \<and> map_option shortCandidates (AnalyzeTrends demo_platform (\<lambda>i. demo_gateway) demo_openai)
       = map_option shortCandidates
           (AnalyzeTrends demo_platform (without_task 2 (\<lambda>i. demo_gateway)) demo_openai)
   \<and> map_option ended (AnalyzeTrends demo_platform (\<lambda>i. demo_gateway) demo_openai)
       = Some Returns"
proof -
  have pairs: "GetTop20USDTpairsByVolume ((\<lambda>i. demo_gateway) 0)
      = Inr ([''UP'', ''DOWN''] @ ''NEW'' # [''BAD'', ''OFF''])"
    by (simp add: demo_pairs)
  have len: "length [''UP'', ''DOWN''] = 2" by simp
  note t = too_short_series_is_skipped
      [OF conjunct1 [OF demo_NEW_klines] conjunct1 [OF conjunct2 [OF demo_NEW_klines]]
          conjunct2 [OF conjunct2 [OF demo_NEW_klines]],
        where macd = "talib_Macd demo_platform" and rsi = "talib_Rsi demo_platform"
          and before = "[''UP'', ''DOWN'']" and after = "[''BAD'', ''OFF'']" and og = demo_openai
          and kgs = "\<lambda>i. demo_gateway"]
  from t pairs have eqs:
    "analyzePair demo_platform demo_gateway ''NEW''
       = ([Log_Analyzing ''NEW'', Log_NotEnoughData ''NEW''], NotEnoughData)"
    "map_option longCandidates (AnalyzeTrends demo_platform (\<lambda>i. demo_gateway) demo_openai)
       = map_option longCandidates
           (AnalyzeTrends demo_platform (without_task 2 (\<lambda>i. demo_gateway)) demo_openai)"
    "map_option shortCandidates (AnalyzeTrends demo_platform (\<lambda>i. demo_gateway) demo_openai)
       = map_option shortCandidates
           (AnalyzeTrends demo_platform (without_task 2 (\<lambda>i. demo_gateway)) demo_openai)"
    unfolding len by simp_all
  obtain lg where full: "AnalyzeTrends demo_platform (\<lambda>i. demo_gateway) demo_openai =
     Some \<lparr>written = lg, ended = Returns,
       longCandidates =
         [\<lparr>Symbol = ''UP'', CurrentPrice = Fin 1, Price1H = Fin 1, PurchasePrice = Fin 0,
           Volume24H = Fin 0, MACD = Fin 1, RSI = Fin 50\<rparr>],
       shortCandidates =
         [\<lparr>Symbol = ''DOWN'', CurrentPrice = Fin 2, Price1H = Fin 2, PurchasePrice = Fin 0,
           Volume24H = Fin 0, MACD = Fin (- 1), RSI = Fin 50\<rparr>]\<rparr>"
    using demo_scan by blast
  obtain lg' where less: "AnalyzeTrends demo_platform (without_task 2 (\<lambda>i. demo_gateway)) demo_openai =
     Some \<lparr>written = lg', ended = Returns,
       longCandidates =
         [\<lparr>Symbol = ''UP'', CurrentPrice = Fin 1, Price1H = Fin 1, PurchasePrice = Fin 0,
           Volume24H = Fin 0, MACD = Fin 1, RSI = Fin 50\<rparr>],
       shortCandidates =
         [\<lparr>Symbol = ''DOWN'', CurrentPrice = Fin 2, Price1H = Fin 2, PurchasePrice = Fin 0,
           Volume24H = Fin 0, MACD = Fin (- 1), RSI = Fin 50\<rparr>]\<rparr>"
    using demo_without_NEW by blast
  have "map_option (map Symbol \<circ> longCandidates)
        (AnalyzeTrends demo_platform (\<lambda>i. demo_gateway) demo_openai) = Some [''UP'']"
    "map_option (map Symbol \<circ> longCandidates)
        (AnalyzeTrends demo_platform (without_task 2 (\<lambda>i. demo_gateway)) demo_openai) = Some [''UP'']"
    "map_option ended (AnalyzeTrends demo_platform (\<lambda>i. demo_gateway) demo_openai) = Some Returns"
    by (simp_all add: full less)
  with eqs show ?thesis by blast
qed

lemma enumerate_nth:
  "(k, p) \<in> set (enumerate 0 pairs) \<longleftrightarrow> k < length pairs \<and> p = pairs ! k"
  by (auto simp: in_set_enumerate_eq)

lemma AnalyzeTrends_None_nth:
  assumes "GetTop20USDTpairsByVolume (kg 0) = Inr pairs"
  shows "AnalyzeTrends pl kg og = None
     \<longleftrightarrow> (\<exists>i < length pairs. snd (analyzePair pl (kg (Suc i)) (pairs ! i)) = Panic)"
  unfolding AnalyzeTrends_None_iff [where kg = kg and pairs = pairs, OF assms]
  by (auto simp: enumerate_nth)

lemma AnalyzeTrends_written:
  assumes top: "GetTop20USDTpairsByVolume (kg 0) = Inr pairs"
    and run: "AnalyzeTrends pl kg og = Some s"
  shows "ended s = Returns
    \<and> (\<forall>i < length pairs. set (fst (analyzePair pl (kg (Suc i)) (pairs ! i))) \<subseteq> set (written s))"
proof -
  from run AnalyzeTrends_None_iff [where kg = kg and pairs = pairs, OF top, of pl og]
  have calm: "\<forall>(k, p) \<in> set (enumerate 0 pairs). snd (analyzePair pl (kg (Suc k)) p) \<noteq> Panic"
    by auto
  note joined = AnalyzeTrends_joined [where kg = kg and pairs = pairs, OF top calm, of og]
  from joined run have e: "ended s = Returns" by (auto simp: Let_def)
  have "set (fst (analyzePair pl (kg (Suc i)) (pairs ! i))) \<subseteq> set (written s)"
    if "i < length pairs" for i
  proof -
    from that have "(i, pairs ! i) \<in> set (enumerate 0 pairs)" by (simp add: enumerate_nth)
    then have "set (fst (analyzePair pl (kg (Suc i)) (pairs ! i)))
        \<subseteq> set (concat (map (\<lambda>(k, p). fst (analyzePair pl (kg (Suc k)) p)) (enumerate 0 pairs)))"
      by force
    moreover from joined run have "set (concat (map (\<lambda>(k, p). fst (analyzePair pl (kg (Suc k)) p))
        (enumerate 0 pairs))) \<subseteq> set (written s)"
      by (auto simp: Let_def)
    ultimately show ?thesis by blast
  qed
  with e show ?thesis by blast
qed

text \<open>
  Claim C3, as the code has it. A failure of the market-universe lookup is logged by
  \<^verbatim>\<open>log.Fatalf\<close>, which ends the process with status 1 before any instrument is
  analysed. A task whose price history cannot be fetched, does not parse or is too short
  writes a log entry that reports it, and a scan in which it is the task at some position
  ends as it would without that task, with the same candidates. A scan is carried through
  unless one of its tasks panics (as on a candle with fewer than three fields); a scan
  that is carried through returns, and its log has the report of every such task.
\<close>

theorem failures_are_local:
  "(GetTop20USDTpairsByVolume (kgs 0) = Inl err \<longrightarrow>
      AnalyzeTrends pl kgs og =
        Some \<lparr>written = [Log_FetchingTop20, Log_Fatal_TopPairs err], ended = Exits 1,
              longCandidates = [], shortCandidates = []\<rparr>)
   \<and> (skipped (snd (analyzePair pl kg p)) \<longrightarrow>
        (\<exists>e \<in> set (fst (analyzePair pl kg p)). reports p e))
   \<and> (GetTop20USDTpairsByVolume (kgs 0) = Inr (before @ p # after)
        \<and> skipped (snd (analyzePair pl (kgs (Suc (length before))) p)) \<longrightarrow>
        map_option longCandidates (AnalyzeTrends pl kgs og)
          = map_option longCandidates (AnalyzeTrends pl (without_task (length before) kgs) og)
        \<and> map_option shortCandidates (AnalyzeTrends pl kgs og)
          = map_option shortCandidates (AnalyzeTrends pl (without_task (length before) kgs) og)
        \<and> map_option ended (AnalyzeTrends pl kgs og)
          = map_option ended (AnalyzeTrends pl (without_task (length before) kgs) og))
   \<and> (GetTop20USDTpairsByVolume (kgs 0) = Inr pairs \<longrightarrow>
        (AnalyzeTrends pl kgs og = None
          \<longleftrightarrow> (\<exists>i < length pairs. snd (analyzePair pl (kgs (Suc i)) (pairs ! i)) = Panic)))
   \<and> (GetTop20USDTpairsByVolume (kgs 0) = Inr pairs \<and> AnalyzeTrends pl kgs og = Some s \<longrightarrow>
        ended s = Returns
        \<and> (\<forall>i < length pairs. skipped (snd (analyzePair pl (kgs (Suc i)) (pairs ! i))) \<longrightarrow>
              (\<exists>e \<in> set (written s). reports (pairs ! i) e)))"
proof (intro conjI impI)
  show "AnalyzeTrends pl kgs og =
        Some \<lparr>written = [Log_FetchingTop20, Log_Fatal_TopPairs err], ended = Exits 1,
              longCandidates = [], shortCandidates = []\<rparr>"
    if "GetTop20USDTpairsByVolume (kgs 0) = Inl err"
    using that by (rule AnalyzeTrends_lookup_failed)
  show "\<exists>e \<in> set (fst (analyzePair pl kg p)). reports p e"
    if "skipped (snd (analyzePair pl kg p))"
    using that by (rule analyzePair_reports)
  show "AnalyzeTrends pl kgs og = None
          \<longleftrightarrow> (\<exists>i < length pairs. snd (analyzePair pl (kgs (Suc i)) (pairs ! i)) = Panic)"
    if "GetTop20USDTpairsByVolume (kgs 0) = Inr pairs"
    using that by (rule AnalyzeTrends_None_nth [where kg = kgs and pairs = pairs])
next
  assume a: "GetTop20USDTpairsByVolume (kgs 0) = Inr (before @ p # after)
        \<and> skipped (snd (analyzePair pl (kgs (Suc (length before))) p))"
  note w = AnalyzeTrends_without
      [where kg = kgs and before = before and p = p and after = after and pl = pl and og = og,
        OF conjunct1 [OF a] conjunct2 [OF a]]
  from w show "map_option longCandidates (AnalyzeTrends pl kgs og)
          = map_option longCandidates (AnalyzeTrends pl (without_task (length before) kgs) og)"
    by blast
  from w show "map_option shortCandidates (AnalyzeTrends pl kgs og)
          = map_option shortCandidates (AnalyzeTrends pl (without_task (length before) kgs) og)"
    by blast
  from w show "map_option ended (AnalyzeTrends pl kgs og)
          = map_option ended (AnalyzeTrends pl (without_task (length before) kgs) og)"
    by blast
next
  assume a: "GetTop20USDTpairsByVolume (kgs 0) = Inr pairs \<and> AnalyzeTrends pl kgs og = Some s"
  note w = AnalyzeTrends_written [where kg = kgs and pairs = pairs and pl = pl and og = og and s = s,
      OF conjunct1 [OF a] conjunct2 [OF a]]
  from w show "ended s = Returns" by blast
  show "\<forall>i < length pairs. skipped (snd (analyzePair pl (kgs (Suc i)) (pairs ! i))) \<longrightarrow>
              (\<exists>e \<in> set (written s). reports (pairs ! i) e)"
  proof (intro allI impI)
    fix i assume i: "i < length pairs"
      and "skipped (snd (analyzePair pl (kgs (Suc i)) (pairs ! i)))"
    then obtain e where "e \<in> set (fst (analyzePair pl (kgs (Suc i)) (pairs ! i)))"
      "reports (pairs ! i) e"
      using analyzePair_reports by blast
    with w i show "\<exists>e \<in> set (written s). reports (pairs ! i) e" by blast
  qed
qed

text \<open>
  The example scan is carried through and returns, with NEW, BAD and OFF reported in its
  log; with a lookup of the pairs that times out, the process exits.
\<close>

theorem failures_are_local_witness:
  "(\<exists>s. AnalyzeTrends demo_platform (\<lambda>i. demo_gateway) demo_openai = Some s
      \<and> ended s = Returns
      \<and> (\<exists>e \<in> set (written s). reports ''NEW'' e)
      \<and> (\<exists>e \<in> set (written s). reports ''BAD'' e)
      \<and> (\<exists>e \<in> set (written s). reports ''OFF'' e))
   \<and> map_option longCandidates (AnalyzeTrends demo_platform (\<lambda>i. demo_gateway) demo_openai)
       = map_option longCandidates
           (AnalyzeTrends demo_platform (without_task 3 (\<lambda>i. demo_gateway)) demo_openai)
   \<and> AnalyzeTrends demo_platform
        (\<lambda>i. demo_gateway\<lparr>GetTop20USDTpairsByVolume := Inl (Err ''timeout'')\<rparr>) demo_openai
       = Some \<lparr>written = [Log_FetchingTop20, Log_Fatal_TopPairs (Err ''timeout'')],
               ended = Exits 1, longCandidates = [], shortCandidates = []\<rparr>"
proof -
  obtain s where s: "AnalyzeTrends demo_platform (\<lambda>i. demo_gateway) demo_openai = Some s"
    using demo_scan by blast
  have top: "GetTop20USDTpairsByVolume ((\<lambda>i. demo_gateway) 0)
      = Inr [''UP'', ''DOWN'', ''NEW'', ''BAD'', ''OFF'']"
    by (simp add: demo_pairs)
  note t = failures_are_local [where kgs = "\<lambda>i. demo_gateway" and pl = demo_platform
      and og = demo_openai and pairs = "[''UP'', ''DOWN'', ''NEW'', ''BAD'', ''OFF'']" and s = s
      and before = "[''UP'', ''DOWN'', ''NEW'']" and p = "''BAD''" and after = "[''OFF'']"]
  from t top s have ret: "ended s = Returns"
    and all: "\<forall>i < length [''UP'', ''DOWN'', ''NEW'', ''BAD'', ''OFF''].
        skipped (snd (analyzePair demo_platform demo_gateway
          ([''UP'', ''DOWN'', ''NEW'', ''BAD'', ''OFF''] ! i))) \<longrightarrow>
        (\<exists>e \<in> set (written s). reports ([''UP'', ''DOWN'', ''NEW'', ''BAD'', ''OFF''] ! i) e)"
    by blast+
  from all [rule_format, of 2] have new: "\<exists>e \<in> set (written s). reports ''NEW'' e"
    by (simp add: demo_NEW)
  from all [rule_format, of 3] have bad: "\<exists>e \<in> set (written s). reports ''BAD'' e"
    by (simp add: demo_BAD)
  from all [rule_format, of 4] have off: "\<exists>e \<in> set (written s). reports ''OFF'' e"
    by (simp add: demo_OFF)
  have top3: "GetTop20USDTpairsByVolume ((\<lambda>i. demo_gateway) 0)
      = Inr ([''UP'', ''DOWN'', ''NEW''] @ ''BAD'' # [''OFF''])"
    by (simp add: demo_pairs)
  have sk: "skipped (snd (analyzePair demo_platform
      ((\<lambda>i. demo_gateway) (Suc (length [''UP'', ''DOWN'', ''NEW'']))) ''BAD''))"
    by (simp add: demo_BAD)
  have len: "length [''UP'', ''DOWN'', ''NEW''] = 3" by simp
  from t top3 sk
  have less: "map_option longCandidates (AnalyzeTrends demo_platform (\<lambda>i. demo_gateway) demo_openai)
       = map_option longCandidates
           (AnalyzeTrends demo_platform (without_task 3 (\<lambda>i. demo_gateway)) demo_openai)"
    unfolding len by blast
  have fatal: "AnalyzeTrends demo_platform
        (\<lambda>i. demo_gateway\<lparr>GetTop20USDTpairsByVolume := Inl (Err ''timeout'')\<rparr>) demo_openai
       = Some \<lparr>written = [Log_FetchingTop20, Log_Fatal_TopPairs (Err ''timeout'')],
               ended = Exits 1, longCandidates = [], shortCandidates = []\<rparr>"
    using failures_are_local
      [where kgs = "\<lambda>i. demo_gateway\<lparr>GetTop20USDTpairsByVolume := Inl (Err ''timeout'')\<rparr>"
        and err = "Err ''timeout''" and pl = demo_platform and og = demo_openai]
    by simp
  from s ret new bad off less fatal show ?thesis by blast
qed

text \<open>
  The claim has a failure of the market-universe lookup reported without ending the
  process. A lookup that times out ends it with status 1.
\<close>

theorem failures_are_local_counterexample:
  "GetTop20USDTpairsByVolume (demo_gateway\<lparr>GetTop20USDTpairsByVolume := Inl (Err ''timeout'')\<rparr>)
     = Inl (Err ''timeout'')
   \<and> map_option ended (AnalyzeTrends demo_platform
        (\<lambda>i. demo_gateway\<lparr>GetTop20USDTpairsByVolume := Inl (Err ''timeout'')\<rparr>) demo_openai)
     = Some (Exits 1)
   \<and> Exits 1 \<noteq> Returns"
  by (simp add: AnalyzeTrends_def)

section \<open>ExecuteTrade\<close>

text \<open>
  Claim C2, as the code has it. ExecuteTrade tests the execute flag first and the side
  second. With the flag set, a side that is neither "buy" nor "sell" ends the call with
  the InvalidSide report, in the aborted state and without any call of the gateway. With
  the flag unset the call ends as a dry run for every side, valid or not: the side is
  never looked at, and again no call of the gateway is made.
\<close>

theorem side_check_after_dry_run:
  "(side \<noteq> ''buy'' \<and> side \<noteq> ''sell'' \<longrightarrow>
      ExecuteTrade Sprintf_f ex symbol side amountUSD True = ([Log_InvalidSide side], InvalidSide)
      \<and> status_of (snd (ExecuteTrade Sprintf_f ex symbol side amountUSD True)) = Aborted
      \<and> filter is_call (fst (ExecuteTrade Sprintf_f ex symbol side amountUSD True)) = [])
   \<and> ExecuteTrade Sprintf_f ex symbol side amountUSD False = ([Log_DryRun], DryRun)
   \<and> status_of (snd (ExecuteTrade Sprintf_f ex symbol side amountUSD False)) = Aborted
   \<and> filter is_call (fst (ExecuteTrade Sprintf_f ex symbol side amountUSD False)) = []"
  by (simp add: ExecuteTrade_def)

text \<open>
  Side "hold" with the flag set is reported as invalid; a dry run of a "buy" reports the
  dry run.
\<close>

theorem side_check_after_dry_run_witness:
  "ExecuteTrade demo_Sprintf_f demo_exchange ''XBTUSDTM'' ''hold'' (Fin 1000) True
     = ([Log_InvalidSide ''hold''], InvalidSide)
   \<and> ExecuteTrade demo_Sprintf_f demo_exchange ''XBTUSDTM'' ''buy'' (Fin 1000) False
     = ([Log_DryRun], DryRun)"
  using side_check_after_dry_run
    [of "''hold''" demo_Sprintf_f demo_exchange "''XBTUSDTM''" "Fin 1000"]
    side_check_after_dry_run
    [of "''buy''" demo_Sprintf_f demo_exchange "''XBTUSDTM''" "Fin 1000"]
  by simp

text \<open>
  The claim has the side validated before the dry-run check. Side "hold" with the flag
  unset is reported as a dry run, not as InvalidSide.
\<close>

theorem side_check_after_dry_run_counterexample:
  "''hold'' \<noteq> ''buy'' \<and> ''hold'' \<noteq> ''sell''
   \<and> ExecuteTrade demo_Sprintf_f demo_exchange ''XBTUSDTM'' ''hold'' (Fin 1000) False
       = ([Log_DryRun], DryRun)
   \<and> DryRun \<noteq> InvalidSide"
  by (simp add: ExecuteTrade_def)

lemma iteration_break:
  "snd (iteration Sprintf_f symbol side size' targetPrice answers)
     = closes side targetPrice answers"
  by (cases answers; cases "fst answers"; cases "snd answers")
     (auto simp: iteration_def Let_def)


lemma monitor_Cons:
  "monitor Sprintf_f symbol side size' targetPrice (answers # later) =
     (if closes side targetPrice answers
      then (fst (iteration Sprintf_f symbol side size' targetPrice answers), True)
      else (fst (iteration Sprintf_f symbol side size' targetPrice answers)
              @ fst (monitor Sprintf_f symbol side size' targetPrice later),
            snd (monitor Sprintf_f symbol side size' targetPrice later)))"
  using iteration_break [of Sprintf_f symbol side size' targetPrice answers]
  by (cases "iteration Sprintf_f symbol side size' targetPrice answers")
     (auto split: prod.splits)

lemma monitor_break:
  "snd (monitor Sprintf_f symbol side size' targetPrice ticks)
     = (\<exists>answers \<in> set ticks. closes side targetPrice answers)"
  by (induction ticks) (simp_all add: monitor_Cons del: monitor.simps(2))



lemma ExecuteTrade_entered:
  assumes "side = ''buy'' \<or> side = ''sell''"
    and "priceAtEntry ex = Inr currentPrice" and "entryOrder ex = Inr orderID"
  shows "ExecuteTrade Sprintf_f ex symbol side amountUSD True =
     ([Log_Starting symbol side amountUSD, Call_GetCurrentPrice symbol,
       Log_CurrentPrice symbol currentPrice,
       Log_Placing side symbol (Sprintf_f (fdiv amountUSD currentPrice)),
       Call_CreateOrder symbol side ''market'' (Sprintf_f (fdiv amountUSD currentPrice)),
       Log_OrderPlaced side orderID, Log_AssumedEntry currentPrice,
       (if side = ''buy'' then Log_WillSell (targetOf side currentPrice)
        else Log_WillBuy (targetOf side currentPrice))]
      @ fst (monitor Sprintf_f symbol side (fdiv amountUSD currentPrice)
               (targetOf side currentPrice) (polls ex)),
      if snd (monitor Sprintf_f symbol side (fdiv amountUSD currentPrice)
               (targetOf side currentPrice) (polls ex))
      then Exited else Monitoring)"
  using assms by (auto simp: ExecuteTrade_def Let_def split: prod.splits)



lemma demo_entry:
  "priceAtEntry demo_exchange = Inr (Fin 100) \<and> entryOrder demo_exchange = Inr ''entry-1''"
  by (simp add: demo_exchange_def)


lemma iteration_reached:
  "Log_TargetReached closeSide \<in> set (fst (iteration Sprintf_f symbol side size' targetPrice answers))
   \<longleftrightarrow> closeSide = (if side = ''sell'' then ''buy'' else ''sell'')
       \<and> (\<exists>latestPrice. fst answers = Inr latestPrice \<and> targetReached side latestPrice targetPrice)"
  by (cases answers; cases "fst answers"; cases "snd answers")
     (auto simp: iteration_def Let_def)

lemma closes_reached:
  "closes side targetPrice answers \<Longrightarrow>
   \<exists>latestPrice. fst answers = Inr latestPrice \<and> targetReached side latestPrice targetPrice"
  by (cases answers; cases "fst answers"; cases "snd answers") auto

lemma monitor_reached:
  "Log_TargetReached closeSide \<in> set (fst (monitor Sprintf_f symbol side size' targetPrice ticks))
   \<longleftrightarrow> closeSide = (if side = ''sell'' then ''buy'' else ''sell'')
       \<and> (\<exists>tick \<in> set ticks. \<exists>latestPrice.
             fst tick = Inr latestPrice \<and> targetReached side latestPrice targetPrice)"
proof (induction ticks)
  case Nil
  show ?case by simp
next
  case (Cons answers later)
  note it = iteration_reached [of closeSide Sprintf_f symbol side size' targetPrice answers]
  show ?case
  proof (cases "closes side targetPrice answers")
    case True
    with closes_reached [OF True] it show ?thesis
      by (auto simp: monitor_Cons simp del: monitor.simps(2))
  next
    case False
    with it Cons show ?thesis
      by (auto simp: monitor_Cons simp del: monitor.simps(2))
  qed
qed

lemma closes_iff:
  "closes side targetPrice tick \<longleftrightarrow>
   (\<exists>latestPrice closeOrderID. tick = (Inr latestPrice, Inr closeOrderID)
      \<and> targetReached side latestPrice targetPrice)"
  by (cases tick; cases "fst tick"; cases "snd tick") auto

text \<open>The literal of the target against the real factor, and the target against the real product.\<close>

lemma target_tolerance:
  fixes P factor lit :: real
  assumes lit: "f64_of_real factor = Fin lit" and near: "\<bar>lit - factor\<bar> \<le> factor / 2 ^ 53"
    and factor: "1 / 2 \<le> factor" "factor \<le> 2"
    and lo: "1 / 2 ^ 1000 \<le> P" and hi: "P \<le> 2 ^ 1000"
  shows "\<exists>t. fmul (Fin P) (f64_of_real factor) = Fin t
           \<and> \<bar>t - P * factor\<bar> \<le> P * factor / 2 ^ 51"
proof -
  have Ppos: "0 < P" by (rule less_le_trans [OF _ lo]) simp
  have fpos: "0 < factor" using factor(1) by linarith
  have "factor / 2 ^ 53 \<le> factor / 2" using fpos by (simp add: field_simps)
  with near have litlo: "factor / 2 \<le> lit" and lithi: "lit \<le> 2 * factor" by linarith+
  from litlo factor(1) have lit14: "1 / 4 \<le> lit" by linarith
  from lithi factor(2) have lit4: "lit \<le> 4" by linarith
  have litpos: "0 < lit" using lit14 by linarith
  have prod: "\<bar>P * lit\<bar> = P * lit" using Ppos litpos by simp
  have "1 / 2 ^ 1000 * (1 / 4) \<le> P * lit"
    using lo lit14 by (intro mult_mono) simp_all
  then have plo: "2 powi (- 1022) \<le> \<bar>P * lit\<bar>"
    unfolding prod by (intro normal_lo, elim order_trans [rotated]) simp
  have "P * lit \<le> 2 ^ 1000 * 4"
    using hi lit4 Ppos litpos by (intro mult_mono) simp_all
  then have phi: "\<bar>P * lit\<bar> < 2 powi 1023"
    unfolding prod by (intro normal_hi, elim order_trans) simp
  obtain t where t: "fmul (Fin P) (Fin lit) = Fin t" "\<bar>t - P * lit\<bar> \<le> \<bar>P * lit\<bar> / 2 ^ 53"
    using fmul_Fin [OF plo phi] by blast
  define u :: real where "u = 1 / 2 ^ 53"
  note upos = unit_roundoff(1) [OF u_def] and num = unit_roundoff(2) [OF u_def]
  have e1: "\<bar>P * lit - P * factor\<bar> \<le> u * \<bar>P * factor\<bar>"
  proof -
    have "\<bar>P * lit - P * factor\<bar> = P * \<bar>lit - factor\<bar>"
      using Ppos by (simp add: right_diff_distrib [symmetric] abs_mult del: right_diff_distrib)
    also have "\<dots> \<le> P * (factor / 2 ^ 53)"
      using near Ppos by (intro mult_left_mono) simp_all
    also have "\<dots> = u * \<bar>P * factor\<bar>" using Ppos fpos by (simp add: u_def abs_mult)
    finally show ?thesis .
  qed
  have e2: "\<bar>t - P * lit\<bar> \<le> u * \<bar>P * lit\<bar>" using t(2) by (simp add: u_def)
  have e12: "\<bar>t - P * factor\<bar> \<le> (u + u + u * u) * \<bar>P * factor\<bar>"
    by (rule rel_compose [OF e1 e2 upos])
  have small: "u + u + u * u \<le> 1 / 2 ^ 51"
  proof -
    have "0 \<le> (u + u + u * u) * u" using upos by simp
    with num upos show ?thesis by linarith
  qed
  have "(u + u + u * u) * \<bar>P * factor\<bar> \<le> (1 / 2 ^ 51) * \<bar>P * factor\<bar>"
    using small by (rule mult_right_mono) simp
  with e12 have "\<bar>t - P * factor\<bar> \<le> (1 / 2 ^ 51) * \<bar>P * factor\<bar>"
    by (rule order_trans)
  moreover have "\<bar>P * factor\<bar> = P * factor" using Ppos fpos by simp
  ultimately have "\<bar>t - P * factor\<bar> \<le> P * factor / 2 ^ 51" by simp
  with t(1) lit show ?thesis by auto
qed

lemma size_tolerance:
  assumes "0 < P" and "1 / 2 ^ 1000 \<le> \<bar>A\<bar> / P" and "\<bar>A\<bar> / P \<le> 2 ^ 1000"
  shows "\<exists>s. fdiv (Fin A) (Fin P) = Fin s \<and> \<bar>s - A / P\<bar> \<le> \<bar>A / P\<bar> / 2 ^ 53"
proof -
  have abs: "\<bar>A / P\<bar> = \<bar>A\<bar> / P" using assms(1) by (simp add: abs_divide)
  have lo: "2 powi (- 1022) \<le> \<bar>A / P\<bar>"
    unfolding abs by (rule normal_lo, rule order_trans [OF _ assms(2)]) simp
  have hi: "\<bar>A / P\<bar> < 2 powi 1023"
    unfolding abs by (rule normal_hi, rule order_trans [OF assms(3)]) simp
  from assms(1) have "P \<noteq> 0" by simp
  from fdiv_Fin [OF this lo hi] show ?thesis by blast
qed

text \<open>
  Claim C6. With entry price P > 0 and notional amount A, the entry order has the size
  A / P as float64 division gives it, and the target is P times the literal 1.01 for
  "buy" and P times the literal 0.99 for "sell", as float64 multiplication gives it.
  For magnitudes between \<open>1 / 2 ^ 1000\<close> and \<open>2 ^ 1000\<close> the size is within a relative
  distance of \<open>1 / 2 ^ 53\<close> of the real quotient and the target within
  \<open>1 / 2 ^ 51\<close> of the real product. The controller then monitors with that size and
  that target: it goes on to place the exit order exactly when some polled price is at
  or above the target for "buy", at or below it for "sell", and it ends closed exactly
  when such a poll has its exit order succeed.
\<close>

theorem size_and_target:
  assumes "0 < P" and "priceAtEntry ex = Inr (Fin P)" and "entryOrder ex = Inr orderID"
  shows
   "ExecuteTrade Sprintf_f ex symbol ''buy'' (Fin A) True =
      ([Log_Starting symbol ''buy'' (Fin A), Call_GetCurrentPrice symbol,
        Log_CurrentPrice symbol (Fin P),
        Log_Placing ''buy'' symbol (Sprintf_f (fdiv (Fin A) (Fin P))),
        Call_CreateOrder symbol ''buy'' ''market'' (Sprintf_f (fdiv (Fin A) (Fin P))),
        Log_OrderPlaced ''buy'' orderID, Log_AssumedEntry (Fin P),
        Log_WillSell (fmul (Fin P) (f64_of_real 1.01))]
       @ fst (monitor Sprintf_f symbol ''buy'' (fdiv (Fin A) (Fin P))
                (fmul (Fin P) (f64_of_real 1.01)) (polls ex)),
       if snd (monitor Sprintf_f symbol ''buy'' (fdiv (Fin A) (Fin P))
                (fmul (Fin P) (f64_of_real 1.01)) (polls ex))
       then Exited else Monitoring)
    \<and> ExecuteTrade Sprintf_f ex symbol ''sell'' (Fin A) True =
      ([Log_Starting symbol ''sell'' (Fin A), Call_GetCurrentPrice symbol,
        Log_CurrentPrice symbol (Fin P),
        Log_Placing ''sell'' symbol (Sprintf_f (fdiv (Fin A) (Fin P))),
        Call_CreateOrder symbol ''sell'' ''market'' (Sprintf_f (fdiv (Fin A) (Fin P))),
        Log_OrderPlaced ''sell'' orderID, Log_AssumedEntry (Fin P),
        Log_WillBuy (fmul (Fin P) (f64_of_real 0.99))]
       @ fst (monitor Sprintf_f symbol ''sell'' (fdiv (Fin A) (Fin P))
                (fmul (Fin P) (f64_of_real 0.99)) (polls ex)),
       if snd (monitor Sprintf_f symbol ''sell'' (fdiv (Fin A) (Fin P))
                (fmul (Fin P) (f64_of_real 0.99)) (polls ex))
       then Exited else Monitoring)
    \<and> (1 / 2 ^ 1000 \<le> \<bar>A\<bar> / P \<and> \<bar>A\<bar> / P \<le> 2 ^ 1000 \<longrightarrow>
          (\<exists>s. fdiv (Fin A) (Fin P) = Fin s \<and> \<bar>s - A / P\<bar> \<le> \<bar>A / P\<bar> / 2 ^ 53))
    \<and> (1 / 2 ^ 1000 \<le> P \<and> P \<le> 2 ^ 1000 \<longrightarrow>
          (\<exists>t. fmul (Fin P) (f64_of_real 1.01) = Fin t
             \<and> \<bar>t - P * 1.01\<bar> \<le> P * 1.01 / 2 ^ 51)
          \<and> (\<exists>t. fmul (Fin P) (f64_of_real 0.99) = Fin t
             \<and> \<bar>t - P * 0.99\<bar> \<le> P * 0.99 / 2 ^ 51))
    \<and> (Log_TargetReached ''sell''
          \<in> set (fst (ExecuteTrade Sprintf_f ex symbol ''buy'' (Fin A) True))
        \<longleftrightarrow> (\<exists>tick \<in> set (polls ex). \<exists>latestPrice.
               fst tick = Inr latestPrice
               \<and> fge latestPrice (fmul (Fin P) (f64_of_real 1.01))))
    \<and> (Log_TargetReached ''buy''
          \<in> set (fst (ExecuteTrade Sprintf_f ex symbol ''sell'' (Fin A) True))
        \<longleftrightarrow> (\<exists>tick \<in> set (polls ex). \<exists>latestPrice.
               fst tick = Inr latestPrice
               \<and> fle latestPrice (fmul (Fin P) (f64_of_real 0.99))))
    \<and> (snd (ExecuteTrade Sprintf_f ex symbol ''buy'' (Fin A) True) = Exited
        \<longleftrightarrow> (\<exists>tick \<in> set (polls ex). \<exists>latestPrice closeOrderID.
               tick = (Inr latestPrice, Inr closeOrderID)
               \<and> fge latestPrice (fmul (Fin P) (f64_of_real 1.01))))
    \<and> (snd (ExecuteTrade Sprintf_f ex symbol ''sell'' (Fin A) True) = Exited
        \<longleftrightarrow> (\<exists>tick \<in> set (polls ex). \<exists>latestPrice closeOrderID.
               tick = (Inr latestPrice, Inr closeOrderID)
               \<and> fle latestPrice (fmul (Fin P) (f64_of_real 0.99))))"
proof -
  have buy: "ExecuteTrade Sprintf_f ex symbol ''buy'' (Fin A) True =
      ([Log_Starting symbol ''buy'' (Fin A), Call_GetCurrentPrice symbol,
        Log_CurrentPrice symbol (Fin P),
        Log_Placing ''buy'' symbol (Sprintf_f (fdiv (Fin A) (Fin P))),
        Call_CreateOrder symbol ''buy'' ''market'' (Sprintf_f (fdiv (Fin A) (Fin P))),
        Log_OrderPlaced ''buy'' orderID, Log_AssumedEntry (Fin P),
        Log_WillSell (fmul (Fin P) (f64_of_real 1.01))]
       @ fst (monitor Sprintf_f symbol ''buy'' (fdiv (Fin A) (Fin P))
                (fmul (Fin P) (f64_of_real 1.01)) (polls ex)),
       if snd (monitor Sprintf_f symbol ''buy'' (fdiv (Fin A) (Fin P))
                (fmul (Fin P) (f64_of_real 1.01)) (polls ex))
       then Exited else Monitoring)"
    using ExecuteTrade_entered [of "''buy''" ex "Fin P" orderID Sprintf_f symbol "Fin A"] assms
    by (simp add: targetOf_def)
  have sell: "ExecuteTrade Sprintf_f ex symbol ''sell'' (Fin A) True =
      ([Log_Starting symbol ''sell'' (Fin A), Call_GetCurrentPrice symbol,
        Log_CurrentPrice symbol (Fin P),
        Log_Placing ''sell'' symbol (Sprintf_f (fdiv (Fin A) (Fin P))),
        Call_CreateOrder symbol ''sell'' ''market'' (Sprintf_f (fdiv (Fin A) (Fin P))),
        Log_OrderPlaced ''sell'' orderID, Log_AssumedEntry (Fin P),
        Log_WillBuy (fmul (Fin P) (f64_of_real 0.99))]
       @ fst (monitor Sprintf_f symbol ''sell'' (fdiv (Fin A) (Fin P))
                (fmul (Fin P) (f64_of_real 0.99)) (polls ex)),
       if snd (monitor Sprintf_f symbol ''sell'' (fdiv (Fin A) (Fin P))
                (fmul (Fin P) (f64_of_real 0.99)) (polls ex))
       then Exited else Monitoring)"
    using ExecuteTrade_entered [of "''sell''" ex "Fin P" orderID Sprintf_f symbol "Fin A"] assms
    by (simp add: targetOf_def)
  have size: "\<exists>s. fdiv (Fin A) (Fin P) = Fin s \<and> \<bar>s - A / P\<bar> \<le> \<bar>A / P\<bar> / 2 ^ 53"
    if "1 / 2 ^ 1000 \<le> \<bar>A\<bar> / P \<and> \<bar>A\<bar> / P \<le> 2 ^ 1000"
    using that assms(1) by (intro size_tolerance) simp_all
  have near101: "\<bar>4548635623644201 / 2 ^ 52 - 1.01\<bar> \<le> (1.01::real) / 2 ^ 53" by simp
  have near099: "\<bar>4458563631096791 / 2 ^ 52 - 0.99\<bar> \<le> (0.99::real) / 2 ^ 53" by simp
  have up: "\<exists>t. fmul (Fin P) (f64_of_real 1.01) = Fin t
             \<and> \<bar>t - P * 1.01\<bar> \<le> P * 1.01 / 2 ^ 51"
    if "1 / 2 ^ 1000 \<le> P \<and> P \<le> 2 ^ 1000"
    using that by (intro target_tolerance [OF lit_1_01 near101]) simp_all
  have down: "\<exists>t. fmul (Fin P) (f64_of_real 0.99) = Fin t
             \<and> \<bar>t - P * 0.99\<bar> \<le> P * 0.99 / 2 ^ 51"
    if "1 / 2 ^ 1000 \<le> P \<and> P \<le> 2 ^ 1000"
    using that by (intro target_tolerance [OF lit_0_99 near099]) simp_all
  have reach_buy: "Log_TargetReached ''sell''
          \<in> set (fst (ExecuteTrade Sprintf_f ex symbol ''buy'' (Fin A) True))
        \<longleftrightarrow> (\<exists>tick \<in> set (polls ex). \<exists>latestPrice.
               fst tick = Inr latestPrice
               \<and> fge latestPrice (fmul (Fin P) (f64_of_real 1.01)))"
    unfolding buy by (simp add: monitor_reached targetReached_def)
  have reach_sell: "Log_TargetReached ''buy''
          \<in> set (fst (ExecuteTrade Sprintf_f ex symbol ''sell'' (Fin A) True))
        \<longleftrightarrow> (\<exists>tick \<in> set (polls ex). \<exists>latestPrice.
               fst tick = Inr latestPrice
               \<and> fle latestPrice (fmul (Fin P) (f64_of_real 0.99)))"
    unfolding sell by (simp add: monitor_reached targetReached_def)
  have exit_buy: "snd (ExecuteTrade Sprintf_f ex symbol ''buy'' (Fin A) True) = Exited
        \<longleftrightarrow> (\<exists>tick \<in> set (polls ex). \<exists>latestPrice closeOrderID.
               tick = (Inr latestPrice, Inr closeOrderID)
               \<and> fge latestPrice (fmul (Fin P) (f64_of_real 1.01)))"
    unfolding buy by (simp add: monitor_break closes_iff targetReached_def)
  have exit_sell: "snd (ExecuteTrade Sprintf_f ex symbol ''sell'' (Fin A) True) = Exited
        \<longleftrightarrow> (\<exists>tick \<in> set (polls ex). \<exists>latestPrice closeOrderID.
               tick = (Inr latestPrice, Inr closeOrderID)
               \<and> fle latestPrice (fmul (Fin P) (f64_of_real 0.99)))"
    unfolding sell by (simp add: monitor_break closes_iff targetReached_def)
  from buy sell size up down reach_buy reach_sell exit_buy exit_sell
  show ?thesis by blast
qed

text \<open>
  An amount of 1000 at an entry price of 100: size 10, targets 101 and 99, and the
  example execution exits at the poll of 101. A short position entered at 10 has the
  float64 nearest to 9.9 as its target, and exits at a poll of that price.
\<close>

theorem size_and_target_witness:
  "(0::real) < 100 \<and> priceAtEntry demo_exchange = Inr (Fin 100)
   \<and> (1 / 2 ^ 1000 \<le> \<bar>1000::real\<bar> / 100 \<and> \<bar>1000::real\<bar> / 100 \<le> 2 ^ 1000)
   \<and> fdiv (Fin 1000) (Fin 100) = Fin 10
   \<and> fmul (Fin 100) (f64_of_real 1.01) = Fin 101
   \<and> fmul (Fin 100) (f64_of_real 0.99) = Fin 99
   \<and> Log_TargetReached ''sell''
       \<in> set (fst (ExecuteTrade demo_Sprintf_f demo_exchange ''XBTUSDTM'' ''buy'' (Fin 1000) True))
   \<and> snd (ExecuteTrade demo_Sprintf_f demo_exchange ''XBTUSDTM'' ''buy'' (Fin 1000) True) = Exited
   \<and> fmul (Fin 10) (f64_of_real 0.99) = f64_of_real 9.9
   \<and> snd (ExecuteTrade demo_Sprintf_f demo_short ''XBTUSDTM'' ''sell'' (Fin 1000) True) = Exited"
proof -
  have pos: "(0::real) < 100" by simp
  have price: "priceAtEntry demo_exchange = Inr (Fin 100)" by (simp add: demo_exchange_def)
  have order: "entryOrder demo_exchange = Inr ''entry-1''" by (simp add: demo_exchange_def)
  have lo: "1 / 2 ^ 1000 \<le> \<bar>1000::real\<bar> / 100"
  proof -
    have "1 / 2 ^ 1000 \<le> (1::real)" by (simp only: divide_le_eq_1_pos zero_less_power
          zero_less_numeral one_le_power one_le_numeral)
    also have "(1::real) \<le> \<bar>1000\<bar> / 100" by simp
    finally show ?thesis .
  qed
  have hi: "\<bar>1000::real\<bar> / 100 \<le> 2 ^ 1000"
  proof -
    have "\<bar>1000::real\<bar> / 100 \<le> 2 ^ 4" by simp
    also have "(2::real) ^ 4 \<le> 2 ^ 1000" by (rule power_increasing) simp_all
    finally show ?thesis .
  qed
  have up: "fmul (Fin 100) (f64_of_real 1.01) = Fin 101"
    using target_buy_100 by (simp add: targetOf_def)
  have down: "fmul (Fin 100) (f64_of_real 0.99) = Fin 99"
    using target_sell_100 by (simp add: targetOf_def)
  have short: "fmul (Fin 10) (f64_of_real 0.99) = f64_of_real 9.9"
    using target_sell_10 by (simp add: targetOf_def)
  note long = size_and_target [where P = 100 and ex = demo_exchange
      and orderID = "''entry-1''" and Sprintf_f = demo_Sprintf_f
      and symbol = "''XBTUSDTM''" and A = 1000, OF pos price order]
  note long_reached = long [THEN conjunct2, THEN conjunct2, THEN conjunct2, THEN conjunct2,
      THEN conjunct1]
  note long_exited = long [THEN conjunct2, THEN conjunct2, THEN conjunct2, THEN conjunct2,
      THEN conjunct2, THEN conjunct2, THEN conjunct1]
  have tick: "(Inr (Fin 101), Inr ''exit-1'') \<in> set (polls demo_exchange)"
    by (simp add: demo_exchange_def)
  have met: "fge (Fin 101) (fmul (Fin 100) (f64_of_real 1.01))"
    unfolding up by simp
  have reached: "Log_TargetReached ''sell''
       \<in> set (fst (ExecuteTrade demo_Sprintf_f demo_exchange ''XBTUSDTM'' ''buy'' (Fin 1000) True))"
    unfolding long_reached
    by (rule bexI [OF _ tick], rule exI [of _ "Fin 101"], rule conjI, simp, rule met)
  have exited: "snd (ExecuteTrade demo_Sprintf_f demo_exchange ''XBTUSDTM'' ''buy'' (Fin 1000) True)
      = Exited"
    unfolding long_exited
    by (rule bexI [OF _ tick], rule exI [of _ "Fin 101"], rule exI [of _ "''exit-1''"],
        rule conjI, rule refl, rule met)
  have pos': "(0::real) < 10" by simp
  have price': "priceAtEntry demo_short = Inr (Fin 10)" by (simp add: demo_short_def)
  have order': "entryOrder demo_short = Inr ''entry-2''" by (simp add: demo_short_def)
  note sell = size_and_target [where P = 10 and ex = demo_short
      and orderID = "''entry-2''" and Sprintf_f = demo_Sprintf_f
      and symbol = "''XBTUSDTM''" and A = 1000, OF pos' price' order']
  note sell_exited = sell [THEN conjunct2, THEN conjunct2, THEN conjunct2, THEN conjunct2,
      THEN conjunct2, THEN conjunct2, THEN conjunct2]
  have tick': "(Inr (f64_of_real 9.9), Inr ''exit-2'') \<in> set (polls demo_short)"
    by (simp add: demo_short_def)
  have met': "fle (f64_of_real 9.9) (fmul (Fin 10) (f64_of_real 0.99))"
    unfolding short lit_9_9 by simp
  have exited': "snd (ExecuteTrade demo_Sprintf_f demo_short ''XBTUSDTM'' ''sell'' (Fin 1000) True)
      = Exited"
    unfolding sell_exited
    by (rule bexI [OF _ tick'], rule exI [of _ "f64_of_real 9.9"], rule exI [of _ "''exit-2''"],
        rule conjI, rule refl, rule met')
  from pos price lo hi size_1000_100 up down reached exited short exited'
  show ?thesis by blast
qed

section \<open>The gateway\<close>

lemma digits_60: "decimal 60 = ''60''"
  by (simp add: decimal_def digits.simps)

text \<open>
  Claim C10. GetCurrentPrice of the gateway returns the decoded price of a success
  response as it is, also when it is 0. ExecuteTrade then divides the amount by 0 (the
  quotient is an infinity or a NaN, never a finite number) and places the entry order
  with that size: the call does not end before the order.
\<close>

theorem no_zero_price_guard:
  assumes "side = ''buy'' \<or> side = ''sell''"
    and "http_Get w (baseURL g @ ''/api/v1/ticker?symbol='' @ symbol) = Inr respBody"
    and "Unmarshal_price w respBody = (None, ''200000'', Fin 0)"
    and "priceAtEntry ex = snd (KuCoin_GetCurrentPrice w g symbol)"
  shows "snd (KuCoin_GetCurrentPrice w g symbol) = Inr (Fin 0)
    \<and> Call_CreateOrder symbol side ''market'' (Sprintf_f (fdiv amountUSD (Fin 0)))
        \<in> set (fst (ExecuteTrade Sprintf_f ex symbol side amountUSD True))
    \<and> (\<forall>r. fdiv amountUSD (Fin 0) \<noteq> Fin r)
    \<and> snd (ExecuteTrade Sprintf_f ex symbol side amountUSD True)
        \<in> {EntryOrderFailed, Monitoring, Exited}"
proof (intro conjI)
  show price: "snd (KuCoin_GetCurrentPrice w g symbol) = Inr (Fin 0)"
    using assms(2,3) by (simp add: KuCoin_GetCurrentPrice_def Let_def)
  with assms(4) have entry: "priceAtEntry ex = Inr (Fin 0)" by simp
  show "\<forall>r. fdiv amountUSD (Fin 0) \<noteq> Fin r"
    by (cases amountUSD) (simp_all add: fdiv_def is_inf_def is_zero_def inf_of_def)
  show "Call_CreateOrder symbol side ''market'' (Sprintf_f (fdiv amountUSD (Fin 0)))
        \<in> set (fst (ExecuteTrade Sprintf_f ex symbol side amountUSD True))"
    using assms(1) entry
    by (cases "entryOrder ex") (auto simp: ExecuteTrade_def Let_def split: prod.splits)
  show "snd (ExecuteTrade Sprintf_f ex symbol side amountUSD True)
        \<in> {EntryOrderFailed, Monitoring, Exited}"
    using assms(1) entry
    by (cases "entryOrder ex") (auto simp: ExecuteTrade_def Let_def split: prod.splits)
qed

text \<open>
  An amount of 1000 against a decoded price of 0: the entry order is placed with the
  size +Inf.
\<close>

theorem no_zero_price_guard_witness:
  "snd (KuCoin_GetCurrentPrice demo_wire demo_kucoin ''XBTUSDTM'') = Inr (Fin 0)
   \<and> Call_CreateOrder ''XBTUSDTM'' ''buy'' ''market'' ''+Inf''
       \<in> set (fst (ExecuteTrade demo_Sprintf_f
            (demo_exchange\<lparr>priceAtEntry := snd (KuCoin_GetCurrentPrice demo_wire demo_kucoin ''XBTUSDTM'')\<rparr>)
            ''XBTUSDTM'' ''buy'' (Fin 1000) True))"
proof -
  have side: "''buy'' = ''buy'' \<or> ''buy'' = ''sell''" by simp
  have get: "http_Get demo_wire (baseURL demo_kucoin @ ''/api/v1/ticker?symbol='' @ ''XBTUSDTM'')
      = Inr ''body''"
    by (simp add: demo_wire_def)
  have dec: "Unmarshal_price demo_wire ''body'' = (None, ''200000'', Fin 0)"
    by (simp add: demo_wire_def)
  have entry: "priceAtEntry (demo_exchange\<lparr>priceAtEntry :=
        snd (KuCoin_GetCurrentPrice demo_wire demo_kucoin ''XBTUSDTM'')\<rparr>)
      = snd (KuCoin_GetCurrentPrice demo_wire demo_kucoin ''XBTUSDTM'')"
    by simp
  note t = no_zero_price_guard [OF side get dec entry, of demo_Sprintf_f "Fin 1000"]
  have str: "demo_Sprintf_f (fdiv (Fin 1000) (Fin 0)) = ''+Inf''"
    by (simp add: demo_Sprintf_f_def fdiv_def is_inf_def is_zero_def inf_of_def)
  from t have "snd (KuCoin_GetCurrentPrice demo_wire demo_kucoin ''XBTUSDTM'') = Inr (Fin 0)"
    by blast
  moreover from t have "Call_CreateOrder ''XBTUSDTM'' ''buy'' ''market'' ''+Inf''
       \<in> set (fst (ExecuteTrade demo_Sprintf_f
            (demo_exchange\<lparr>priceAtEntry := snd (KuCoin_GetCurrentPrice demo_wire demo_kucoin ''XBTUSDTM'')\<rparr>)
            ''XBTUSDTM'' ''buy'' (Fin 1000) True))"
    unfolding str by blast
  ultimately show ?thesis by blast
qed

text \<open>
  Claim C9. GetKlines of the gateway does not use its count argument: two calls that
  differ in it only request the same URL and, the exchange answering that URL alike,
  return the same result.
\<close>

theorem count_ignored:
  "KuCoin_GetKlines w g symbol granularity count = KuCoin_GetKlines w g symbol granularity count'"
  by (simp add: KuCoin_GetKlines_def)

text \<open>
  Counts 100 and 5 for the 60-minute candles of one symbol.
\<close>

theorem count_ignored_witness:
  "KuCoin_GetKlines demo_wire demo_kucoin ''XBTUSDTM'' 60 100
     = ([''https://api-futures.kucoin.com/api/v1/kline/query?symbol=XBTUSDTM&granularity=60''],
        Inr [[''t'', ''o'', ''1'']])
   \<and> KuCoin_GetKlines demo_wire demo_kucoin ''XBTUSDTM'' 60 5
     = ([''https://api-futures.kucoin.com/api/v1/kline/query?symbol=XBTUSDTM&granularity=60''],
        Inr [[''t'', ''o'', ''1'']])"
  using count_ignored [of demo_wire demo_kucoin "''XBTUSDTM''" 60 100 5]
  by (simp add: KuCoin_GetKlines_def klineData_def demo_wire_def demo_kucoin_def digits_60)

end
